theory Spec2Isabelle
  imports Main
begin

section \<open>Order lifecycle and notification fan-out of the service-order backend\<close>

text \<open>
  A shallow embedding of \<^verbatim>\<open>apps/orders/models.py\<close>, \<^verbatim>\<open>apps/orders/services.py\<close>,
  \<^verbatim>\<open>apps/orders/views/order_views.py\<close>, \<^verbatim>\<open>apps/websocket/models.py\<close>,
  \<^verbatim>\<open>apps/websocket/consumers.py\<close> and \<^verbatim>\<open>apps/utils/websocket_helpers.py\<close>.
  Model instances are records, the database tables are finite maps from primary keys to
  rows, raised exceptions are values of the type \<open>error\<close>, and every operation that
  mutates an instance or the database returns the updated instance and the updated state.
\<close>

subsection \<open>Users (\<^verbatim>\<open>apps/users/models.py\<close>)\<close>

datatype Role = CLIENT | WORKER | ADMIN

datatype Gender = MALE | FEMALE

record User =
  uid :: int
  username :: string
  role :: Role
  gender :: "Gender option"

fun gender_value :: "Gender \<Rightarrow> string" where
  "gender_value MALE = ''male''"
| "gender_value FEMALE = ''female''"

fun role_value :: "Role \<Rightarrow> string" where
  "role_value CLIENT = ''client''"
| "role_value WORKER = ''worker''"
| "role_value ADMIN = ''admin''"

definition is_client :: "User \<Rightarrow> bool" where
  "is_client u = (role u = CLIENT)"

definition is_worker :: "User \<Rightarrow> bool" where
  "is_worker u = (role u = WORKER)"

definition is_admin :: "User \<Rightarrow> bool" where
  "is_admin u = (role u = ADMIN)"

subsection \<open>Orders (\<^verbatim>\<open>apps/orders/models.py\<close>)\<close>

datatype Status = PENDING | PAID | IN_PROGRESS | COMPLETED | CANCELED


text \<open>
  An order row. \<^verbatim>\<open>client\<close> is the related user row as \<^verbatim>\<open>select_related\<close> loads it;
  \<^verbatim>\<open>worker\<close> is kept as its foreign key \<^verbatim>\<open>worker_id\<close>, and \<^verbatim>\<open>order.worker == user\<close>
  (Django compares instances by primary key) is \<open>worker_id order = Some (uid user)\<close>.
  \<^verbatim>\<open>pk\<close> is \<open>None\<close> until the first save. Times are ticks of a clock.
\<close>

record Order =
  pk :: "int option"
  service_name :: string
  description :: string
  price :: int
  status :: Status
  client :: User
  worker_id :: "int option"
  created_at :: nat
  updated_at :: nat
  paid_at :: "nat option"
  completed_at :: "nat option"

text \<open>The dictionary \<^verbatim>\<open>valid_transitions\<close>, in the order of the source.\<close>

definition valid_transitions :: "(Status \<times> Status list) list" where
  "valid_transitions =
     [(PENDING, [PAID, CANCELED]),
      (PAID, [IN_PROGRESS, CANCELED]),
      (IN_PROGRESS, [COMPLETED, CANCELED]),
      (COMPLETED, []),
      (CANCELED, [])]"

text \<open>\<^verbatim>\<open>new_status in valid_transitions.get(old_status, [])\<close>\<close>

definition is_valid_status_transition :: "Status \<Rightarrow> Status \<Rightarrow> bool" where
  "is_valid_status_transition old_status new_status =
     (new_status \<in> set (case map_of valid_transitions old_status of
                           None \<Rightarrow> []
                         | Some targets \<Rightarrow> targets))"


definition is_pending :: "Order \<Rightarrow> bool" where
  "is_pending self = (status self = PENDING)"

definition is_paid :: "Order \<Rightarrow> bool" where
  "is_paid self = (status self = PAID)"

definition is_in_progress :: "Order \<Rightarrow> bool" where
  "is_in_progress self = (status self = IN_PROGRESS)"

definition can_be_paid :: "Order \<Rightarrow> bool" where
  "can_be_paid self = (status self = PENDING)"

text \<open>A related instance is truthy, so \<^verbatim>\<open>not self.worker\<close> tests the foreign key for null.\<close>

definition can_be_assigned :: "Order \<Rightarrow> bool" where
  "can_be_assigned self = (status self = PAID \<and> worker_id self = None)"

definition can_be_started :: "Order \<Rightarrow> bool" where
  "can_be_started self = (status self = PAID \<and> worker_id self \<noteq> None)"

definition can_be_completed :: "Order \<Rightarrow> bool" where
  "can_be_completed self = (status self = IN_PROGRESS \<and> worker_id self \<noteq> None)"

definition can_be_canceled :: "Order \<Rightarrow> bool" where
  "can_be_canceled self = (status self \<in> set [PENDING, PAID, IN_PROGRESS])"

subsection \<open>The database and the channel layer\<close>

datatype error =
    OrderNotFoundError
  | PaymentProcessingError
  | InvalidOrderStatusError
  | InsufficientPermissionsError
  | ValidationError
  | DoesNotExist
  | DatabaseError
  | ValueError
  | TypeError

datatype NStatus = N_PENDING | SENT | READ | FAILED

record Notification =
  nid :: "int option"
  ntype :: string
  title :: string
  message :: string
  recipient_id :: int
  sender_id :: "int option"
  nstatus :: NStatus
  priority :: nat
  n_created_at :: nat
  sent_at :: "nat option"
  read_at :: "nat option"

text \<open>
  A parsed JSON value, as \<^verbatim>\<open>json.loads\<close> returns it (numbers are integers here), and
  Python's truth value of it.
\<close>

datatype json = JNull | JBool bool | JNum int | JStr string | JArr "json list"
  | JObj "(string \<times> json) list"

fun truthy :: "json \<Rightarrow> bool" where
  "truthy JNull = False"
| "truthy (JBool b) = b"
| "truthy (JNum n) = (n \<noteq> 0)"
| "truthy (JStr s) = (s \<noteq> [])"
| "truthy (JArr xs) = (xs \<noteq> [])"
| "truthy (JObj kvs) = (kvs \<noteq> [])"

text \<open>
  A value inside a message: \<open>PFormat p v\<close> is the f-string that appends \<^verbatim>\<open>str(v)\<close> to \<open>p\<close>.
\<close>

datatype pyval = PNone | PInt int | PStr string | PTime nat | PJson json | PFormat string json

text \<open>The envelope \<^verbatim>\<open>{type, payload, timestamp}\<close> of \<^verbatim>\<open>WebSocketMessageBuilder\<close>.\<close>

record Message =
  mtype :: string
  payload :: "(string \<times> pyval) list"
  timestamp :: nat

text \<open>
  The state outside the instances: the tables \<^verbatim>\<open>orders_order\<close> (with its key sequence),
  \<^verbatim>\<open>users_user\<close> and \<^verbatim>\<open>websocket_notification\<close>, the groups of the channel layer
  (group name to channel names) and the log of its \<^verbatim>\<open>group_send\<close> calls.
\<close>

record World =
  orders :: "int \<rightharpoonup> Order"
  order_seq :: int
  users :: "User list"
  notifications :: "int \<rightharpoonup> Notification"
  groups :: "string \<Rightarrow> string set"
  group_sent :: "(string \<times> Message) list"

text \<open>
  \<^verbatim>\<open>Model.save\<close> of an order: a row with a key is written under its key, a row without
  one is inserted under the next key of the sequence. \<^verbatim>\<open>updated_at\<close> is \<^verbatim>\<open>auto_now\<close>,
  \<^verbatim>\<open>created_at\<close> is \<^verbatim>\<open>auto_now_add\<close>. The clock is read once per operation: \<open>now\<close>.
\<close>

definition Model_save :: "nat \<Rightarrow> Order \<Rightarrow> World \<Rightarrow> Order \<times> World" where
  "Model_save now self w =
     (case pk self of
        Some k \<Rightarrow>
          (let row = self\<lparr>updated_at := now,
                           created_at := (case orders w k of None \<Rightarrow> now
                                          | Some _ \<Rightarrow> created_at self)\<rparr>
           in (row, w\<lparr>orders := (orders w)(k \<mapsto> row)\<rparr>))
      | None \<Rightarrow>
          (let k = order_seq w + 1;
               row = self\<lparr>pk := Some k, created_at := now, updated_at := now\<rparr>
           in (row, w\<lparr>order_seq := k, orders := (orders w)(k \<mapsto> row)\<rparr>)))"

text \<open>
  \<^verbatim>\<open>Order.save\<close>: with a truthy key the stored row is read again
  (\<^verbatim>\<open>Order.objects.get\<close> raises when it is gone) and, when the status differs from the
  stored one, \<^verbatim>\<open>paid_at\<close> or \<^verbatim>\<open>completed_at\<close> is stamped unless already set.
\<close>

definition stamp :: "nat \<Rightarrow> Order \<Rightarrow> Order \<Rightarrow> Order" where
  "stamp now old_instance self =
     (if status old_instance \<noteq> status self then
        (if status self = PAID \<and> paid_at self = None then self\<lparr>paid_at := Some now\<rparr>
         else if status self = COMPLETED \<and> completed_at self = None
              then self\<lparr>completed_at := Some now\<rparr>
         else self)
      else self)"

definition Order_save :: "nat \<Rightarrow> Order \<Rightarrow> World \<Rightarrow> error + Order \<times> World" where
  "Order_save now self w =
     (case pk self of
        None \<Rightarrow> Inr (Model_save now self w)
      | Some k \<Rightarrow>
          if k \<noteq> 0 then
            (case orders w k of
               None \<Rightarrow> Inl DoesNotExist
             | Some old_instance \<Rightarrow> Inr (Model_save now (stamp now old_instance self) w))
          else Inr (Model_save now self w))"

text \<open>
  An operation on an order returns what it returned or raised, the instance as the
  operation left it, and the state. \<open>save_and_return\<close> is \<^verbatim>\<open>self.save(); return v\<close>: when
  the save raises, the instance keeps the assignments made before it and nothing is written.
\<close>

type_synonym 'a outcome = "(error + 'a) \<times> Order \<times> World"

definition save_and_return :: "nat \<Rightarrow> Order \<Rightarrow> World \<Rightarrow> 'a \<Rightarrow> 'a outcome" where
  "save_and_return now self w v =
     (case Order_save now self w of
        Inl e \<Rightarrow> (Inl e, self, w)
      | Inr (self', w') \<Rightarrow> (Inr v, self', w'))"

definition Order_assign_worker :: "nat \<Rightarrow> Order \<Rightarrow> User \<Rightarrow> World \<Rightarrow> bool outcome" where
  "Order_assign_worker now self worker w =
     (if \<not> can_be_assigned self then (Inr False, self, w)
      else if role worker \<noteq> WORKER then (Inr False, self, w)
      else save_and_return now (self\<lparr>worker_id := Some (uid worker)\<rparr>) w True)"

definition Order_start_work :: "nat \<Rightarrow> Order \<Rightarrow> World \<Rightarrow> bool outcome" where
  "Order_start_work now self w =
     (if \<not> can_be_started self then (Inr False, self, w)
      else save_and_return now (self\<lparr>status := IN_PROGRESS\<rparr>) w True)"

definition Order_complete_order :: "nat \<Rightarrow> Order \<Rightarrow> World \<Rightarrow> bool outcome" where
  "Order_complete_order now self w =
     (if \<not> can_be_completed self then (Inr False, self, w)
      else save_and_return now (self\<lparr>status := COMPLETED\<rparr>) w True)"

definition Order_cancel_order :: "nat \<Rightarrow> Order \<Rightarrow> World \<Rightarrow> bool outcome" where
  "Order_cancel_order now self w =
     (if \<not> can_be_canceled self then (Inr False, self, w)
      else save_and_return now (self\<lparr>status := CANCELED\<rparr>) w True)"

subsection \<open>Sending to groups (\<^verbatim>\<open>apps/utils/websocket_helpers.py\<close>)\<close>

text \<open>Python's \<^verbatim>\<open>str\<close> of an integer, for the group name \<^verbatim>\<open>f"user_{user_id}"\<close>.\<close>

definition digit_char :: "nat \<Rightarrow> char" where
  "digit_char d = ''0123456789'' ! d"

function str_nat :: "nat \<Rightarrow> string" where
  "str_nat n = (if n < 10 then [digit_char n] else str_nat (n div 10) @ [digit_char (n mod 10)])"
  by pat_completeness auto
termination
  by (relation "measure (\<lambda>n. n)") auto

definition str_int :: "int \<Rightarrow> string" where
  "str_int i = (if i < 0 then CHR ''-'' # str_nat (nat (- i)) else str_nat (nat i))"

fun status_value :: "Status \<Rightarrow> string" where
  "status_value PENDING = ''pending''"
| "status_value PAID = ''paid''"
| "status_value IN_PROGRESS = ''in_progress''"
| "status_value COMPLETED = ''completed''"
| "status_value CANCELED = ''canceled''"

definition order_id :: "Order \<Rightarrow> pyval" where
  "order_id order = (case pk order of None \<Rightarrow> PNone | Some k \<Rightarrow> PInt k)"

definition create_message :: "string \<Rightarrow> (string \<times> pyval) list \<Rightarrow> nat \<Rightarrow> Message" where
  "create_message message_type pl now = \<lparr>mtype = message_type, payload = pl, timestamp = now\<rparr>"

definition create_order_message ::
  "nat \<Rightarrow> string \<Rightarrow> pyval \<Rightarrow> (string \<times> pyval) list \<Rightarrow> Message" where
  "create_order_message now event oid kwargs =
     create_message event ([(''event'', PStr event), (''order_id'', oid)] @ kwargs) now"

text \<open>
  \<^verbatim>\<open>notify_user\<close> hands the message to the channel layer for the group \<^verbatim>\<open>user_<id>\<close>.
  It reads and writes no table.
\<close>

definition notify_user :: "int \<Rightarrow> Message \<Rightarrow> World \<Rightarrow> World" where
  "notify_user user_id msg w =
     w\<lparr>group_sent := group_sent w @ [(''user_'' @ str_int user_id, msg)]\<rparr>"

fun notify_users :: "int list \<Rightarrow> Message \<Rightarrow> World \<Rightarrow> World" where
  "notify_users [] msg w = w"
| "notify_users (user_id # user_ids) msg w = notify_users user_ids msg (notify_user user_id msg w)"

definition notify_workers_by_gender :: "Gender option \<Rightarrow> Message \<Rightarrow> World \<Rightarrow> World" where
  "notify_workers_by_gender g msg w =
     (let worker_ids = map uid (filter (\<lambda>u. role u = WORKER \<and> gender u = g) (users w))
      in if worker_ids \<noteq> [] then notify_users worker_ids msg w else w)"

definition notify_order_created :: "nat \<Rightarrow> Order \<Rightarrow> World \<Rightarrow> World" where
  "notify_order_created now order w =
     (let client_message = create_order_message now ''order_created'' (order_id order)
                             [(''status'', PStr (status_value (status order)))];
          w1 = notify_user (uid (client order)) client_message w;
          worker_message = create_order_message now ''new_order'' (order_id order)
                             [(''client'', PStr (username (client order)))]
      in notify_workers_by_gender (gender (client order)) worker_message w1)"

definition notify_order_updated :: "nat \<Rightarrow> Order \<Rightarrow> Status \<Rightarrow> World \<Rightarrow> World" where
  "notify_order_updated now order old_status w =
     (if status order \<noteq> old_status then
        (let msg = create_order_message now ''order_updated'' (order_id order)
                     [(''status'', PStr (status_value (status order))),
                      (''old_status'', PStr (status_value old_status))];
             w1 = notify_user (uid (client order)) msg w
         in if status order \<in> set [IN_PROGRESS, COMPLETED] then
              (let worker_message = create_order_message now ''order_updated'' (order_id order)
                                      [(''status'', PStr (status_value (status order)))]
               in notify_workers_by_gender (gender (client order)) worker_message w1)
            else w1)
      else w)"

definition notify_payment_processed :: "nat \<Rightarrow> Order \<Rightarrow> bool \<Rightarrow> World \<Rightarrow> World" where
  "notify_payment_processed now order success w =
     (let event_type = (if success then ''payment_success'' else ''payment_failed'');
          msg = create_order_message now event_type (order_id order)
                  [(''status'', PStr (status_value (status order)))];
          w1 = notify_user (uid (client order)) msg w;
          worker_message = create_order_message now event_type (order_id order)
                             [(''status'', PStr (status_value (status order)))]
      in notify_workers_by_gender (gender (client order)) worker_message w1)"

subsection \<open>Services (\<^verbatim>\<open>apps/orders/services.py\<close>)\<close>

definition can_user_view_order :: "User \<Rightarrow> Order \<Rightarrow> bool" where
  "can_user_view_order user order =
     (if is_admin user then True
      else if is_client user \<and> uid (client order) = uid user then True
      else if is_worker user \<and> gender (client order) = gender user then True
      else False)"

definition can_user_update_order :: "User \<Rightarrow> Order \<Rightarrow> bool" where
  "can_user_update_order user order =
     (if is_admin user then True
      else if is_worker user \<and> worker_id order = Some (uid user) then True
      else False)"

definition can_user_manage_order :: "User \<Rightarrow> Order \<Rightarrow> bool" where
  "can_user_manage_order user order =
     (if is_admin user then True
      else if is_worker user \<and> gender (client order) = gender user then True
      else False)"

definition can_user_cancel_order :: "User \<Rightarrow> Order \<Rightarrow> bool" where
  "can_user_cancel_order user order =
     (if is_admin user then True
      else if is_client user \<and> uid (client order) = uid user \<and> is_pending order then True
      else if is_worker user \<and> worker_id order = Some (uid user) \<and> is_in_progress order then True
      else False)"

definition can_create_orders :: "User \<Rightarrow> bool" where
  "can_create_orders u = (role u = CLIENT)"

text \<open>
  \<^verbatim>\<open>OrderService.create_order\<close> as the view calls it, without further fields:
  \<^verbatim>\<open>Order.objects.create\<close> saves a new instance with the defaults of the model.
\<close>

definition create_order ::
  "nat \<Rightarrow> User \<Rightarrow> string \<Rightarrow> int \<Rightarrow> string \<Rightarrow> World \<Rightarrow> (error + Order) \<times> World" where
  "create_order now client_user name amount descr w =
     (if \<not> can_create_orders client_user then (Inl InsufficientPermissionsError, w)
      else
        (case Order_save now
                \<lparr>pk = None, service_name = name, description = descr, price = amount,
                 status = PENDING, client = client_user, worker_id = None, created_at = now,
                 updated_at = now, paid_at = None, completed_at = None\<rparr> w of
           Inl e \<Rightarrow> (Inl e, w)
         | Inr (order, w') \<Rightarrow> (Inr order, notify_order_created now order w')))"

definition get_order_by_id :: "int \<Rightarrow> User \<Rightarrow> World \<Rightarrow> error + Order" where
  "get_order_by_id oid user w =
     (case orders w oid of
        None \<Rightarrow> Inl OrderNotFoundError
      | Some order \<Rightarrow>
          if \<not> can_user_view_order user order then Inl InsufficientPermissionsError
          else Inr order)"

text \<open>
  The keyword arguments of \<^verbatim>\<open>update_order_status\<close>. Both callers pass the validated data
  of \<^verbatim>\<open>OrderStatusUpdateSerializer\<close>: the keys \<^verbatim>\<open>status\<close>, \<^verbatim>\<open>worker_id\<close> (which may be
  null) and \<^verbatim>\<open>reason\<close>, each present or absent.
\<close>

record StatusUpdateData =
  d_status :: "Status option"
  d_worker_id :: "int option option"
  d_reason :: "string option"

text \<open>
  \<^verbatim>\<open>for key, value in kwargs.items(): if hasattr(order, key): setattr(order, key, value)\<close>.
  An order has the attributes \<^verbatim>\<open>status\<close> and \<^verbatim>\<open>worker_id\<close> and no attribute \<^verbatim>\<open>reason\<close>.
\<close>

definition set_known_fields :: "StatusUpdateData \<Rightarrow> Order \<Rightarrow> Order" where
  "set_known_fields kwargs order =
     (let order1 = (case d_status kwargs of None \<Rightarrow> order | Some s \<Rightarrow> order\<lparr>status := s\<rparr>)
      in (case d_worker_id kwargs of None \<Rightarrow> order1 | Some v \<Rightarrow> order1\<lparr>worker_id := v\<rparr>))"

text \<open>
  \<^verbatim>\<open>new_status\<close> is \<open>None\<close> when the request has no status; \<^verbatim>\<open>None\<close> is in no list of the
  transition table. A failed save re-raises out of the atomic block: nothing is written.
\<close>

definition update_order_status ::
  "nat \<Rightarrow> Order \<Rightarrow> Status option \<Rightarrow> User \<Rightarrow> StatusUpdateData \<Rightarrow> World \<Rightarrow> unit outcome" where
  "update_order_status now order new_status user kwargs w =
     (if \<not> can_user_update_order user order then (Inl InsufficientPermissionsError, order, w)
      else
        (let old_status = status order in
         case new_status of
           None \<Rightarrow> (Inl InvalidOrderStatusError, order, w)
         | Some new \<Rightarrow>
             if \<not> is_valid_status_transition old_status new
             then (Inl InvalidOrderStatusError, order, w)
             else
               (case save_and_return now ((set_known_fields kwargs order)\<lparr>status := new\<rparr>) w () of
                  (Inl e, order', w') \<Rightarrow> (Inl e, order', w)
                | (Inr u, order', w') \<Rightarrow>
                    (Inr (), order', notify_order_updated now order' old_status w'))))"

definition assign_worker_to_order ::
  "nat \<Rightarrow> Order \<Rightarrow> User \<Rightarrow> User \<Rightarrow> World \<Rightarrow> bool outcome" where
  "assign_worker_to_order now order worker user w =
     (if \<not> can_user_manage_order user order then (Inl InsufficientPermissionsError, order, w)
      else if \<not> is_worker worker then (Inl InsufficientPermissionsError, order, w)
      else
        (case Order_assign_worker now order worker w of
           (Inr True, order', w') \<Rightarrow>
             (Inr True, order', notify_order_updated now order' (status order') w')
         | r \<Rightarrow> r))"

definition start_order_work :: "nat \<Rightarrow> Order \<Rightarrow> User \<Rightarrow> World \<Rightarrow> bool outcome" where
  "start_order_work now order user w =
     (if \<not> can_user_manage_order user order then (Inl InsufficientPermissionsError, order, w)
      else if worker_id order \<noteq> Some (uid user) then (Inl InsufficientPermissionsError, order, w)
      else
        (case Order_start_work now order w of
           (Inr True, order', w') \<Rightarrow>
             (Inr True, order', notify_order_updated now order' (status order') w')
         | r \<Rightarrow> r))"

definition complete_order :: "nat \<Rightarrow> Order \<Rightarrow> User \<Rightarrow> World \<Rightarrow> bool outcome" where
  "complete_order now order user w =
     (if \<not> can_user_manage_order user order then (Inl InsufficientPermissionsError, order, w)
      else if worker_id order \<noteq> Some (uid user) then (Inl InsufficientPermissionsError, order, w)
      else
        (case Order_complete_order now order w of
           (Inr True, order', w') \<Rightarrow>
             (Inr True, order', notify_order_updated now order' (status order') w')
         | r \<Rightarrow> r))"

definition cancel_order :: "nat \<Rightarrow> Order \<Rightarrow> User \<Rightarrow> string \<Rightarrow> World \<Rightarrow> bool outcome" where
  "cancel_order now order user reason w =
     (if \<not> can_user_cancel_order user order then (Inl InsufficientPermissionsError, order, w)
      else
        (case Order_cancel_order now order w of
           (Inr True, order', w') \<Rightarrow>
             (Inr True, order', notify_order_updated now order' (status order') w')
         | r \<Rightarrow> r))"

text \<open>
  \<^verbatim>\<open>PaymentService.process_payment\<close>: every exception of the atomic block is raised again as
  \<^verbatim>\<open>PaymentProcessingError\<close>.
\<close>

definition process_payment :: "nat \<Rightarrow> Order \<Rightarrow> bool \<Rightarrow> World \<Rightarrow> unit outcome" where
  "process_payment now order success w =
     (if \<not> can_be_paid order then (Inl PaymentProcessingError, order, w)
      else
        (let order1 = (if success then order\<lparr>status := PAID, paid_at := Some now\<rparr>
                       else order\<lparr>status := CANCELED\<rparr>)
         in case save_and_return now order1 w () of
              (Inl e, order', w') \<Rightarrow> (Inl PaymentProcessingError, order', w)
            | (Inr u, order', w') \<Rightarrow>
                (Inr (), order', notify_payment_processed now order' success w')))"

definition refund_payment :: "nat \<Rightarrow> Order \<Rightarrow> User \<Rightarrow> string \<Rightarrow> World \<Rightarrow> bool outcome" where
  "refund_payment now order user reason w =
     (if \<not> is_admin user \<and> uid (client order) \<noteq> uid user
      then (Inl InsufficientPermissionsError, order, w)
      else if \<not> is_paid order then (Inl PaymentProcessingError, order, w)
      else
        (case save_and_return now (order\<lparr>status := CANCELED\<rparr>) w True of
           (Inl e, order', w') \<Rightarrow> (Inl PaymentProcessingError, order', w)
         | (Inr b, order', w') \<Rightarrow>
             (Inr True, order', notify_payment_processed now order' False w')))"

subsection \<open>Views (\<^verbatim>\<open>apps/orders/views/order_views.py\<close>)\<close>

datatype body = Detail string | ErrorDetail error | OrderData Order | NoBody

datatype Response = Response (response_data: body) (status_code: nat)

text \<open>
  The responses of the \<^verbatim>\<open>except\<close> clauses of the views; \<^verbatim>\<open>ValidationError\<close> and
  \<^verbatim>\<open>PaymentProcessingError\<close> are API exceptions of status 400, and what no clause and
  no handler knows is a server error.
\<close>

fun error_response :: "error \<Rightarrow> Response" where
  "error_response OrderNotFoundError = Response (Detail ''Order not found.'') 404"
| "error_response InsufficientPermissionsError = Response (ErrorDetail InsufficientPermissionsError) 403"
| "error_response InvalidOrderStatusError = Response (ErrorDetail InvalidOrderStatusError) 400"
| "error_response ValidationError = Response (ErrorDetail ValidationError) 400"
| "error_response PaymentProcessingError = Response (ErrorDetail PaymentProcessingError) 400"
| "error_response e = Response (ErrorDetail e) 500"



definition truthy_id :: "int option \<Rightarrow> int option" where
  "truthy_id v = (case v of None \<Rightarrow> None | Some n \<Rightarrow> if n \<noteq> 0 then Some n else None)"





text \<open>\<^verbatim>\<open>order.delete()\<close>: an instance without a key cannot be deleted.\<close>

definition Order_delete :: "Order \<Rightarrow> World \<Rightarrow> error + World" where
  "Order_delete self w =
     (case pk self of
        None \<Rightarrow> Inl ValueError
      | Some k \<Rightarrow> Inr (w\<lparr>orders := (orders w)(k := None)\<rparr>))"

definition OrderDetailView_destroy :: "User \<Rightarrow> int \<Rightarrow> World \<Rightarrow> Response \<times> World" where
  "OrderDetailView_destroy user oid w =
     (case get_order_by_id oid user w of
        Inl e \<Rightarrow> (error_response e, w)
      | Inr order \<Rightarrow>
          if \<not> is_pending order
          then (Response (Detail ''Only pending orders can be deleted.'') 400, w)
          else
            (case Order_delete order w of
               Inl e \<Rightarrow> (error_response e, w)
             | Inr w' \<Rightarrow> (Response NoBody 204, w')))"

subsection \<open>Notifications (\<^verbatim>\<open>apps/websocket/models.py\<close>)\<close>

text \<open>
  \<^verbatim>\<open>self.save(update_fields=[...])\<close>: an update of the named columns of the stored row.
  \<open>put self row\<close> copies those columns from the instance. Without a key the save raises
  \<^verbatim>\<open>ValueError\<close>, without a row \<^verbatim>\<open>DatabaseError\<close>.
\<close>

definition save_update_fields ::
  "(Notification \<Rightarrow> Notification \<Rightarrow> Notification) \<Rightarrow> Notification \<Rightarrow> World \<Rightarrow> error + World" where
  "save_update_fields put self w =
     (case nid self of
        None \<Rightarrow> Inl ValueError
      | Some k \<Rightarrow>
          (case notifications w k of
             None \<Rightarrow> Inl DatabaseError
           | Some row \<Rightarrow> Inr (w\<lparr>notifications := (notifications w)(k \<mapsto> put self row)\<rparr>)))"

type_synonym noutcome = "(error + unit) \<times> Notification \<times> World"

definition saved :: "Notification \<Rightarrow> World \<Rightarrow> error + World \<Rightarrow> noutcome" where
  "saved self w r = (case r of Inl e \<Rightarrow> (Inl e, self, w) | Inr w' \<Rightarrow> (Inr (), self, w'))"

definition mark_as_sent :: "nat \<Rightarrow> Notification \<Rightarrow> World \<Rightarrow> noutcome" where
  "mark_as_sent now self w =
     (let self' = self\<lparr>nstatus := SENT, sent_at := Some now\<rparr>
      in saved self' w
           (save_update_fields (\<lambda>s row. row\<lparr>nstatus := nstatus s, sent_at := sent_at s\<rparr>) self' w))"

definition mark_as_read :: "nat \<Rightarrow> Notification \<Rightarrow> World \<Rightarrow> noutcome" where
  "mark_as_read now self w =
     (let self' = self\<lparr>nstatus := READ, read_at := Some now\<rparr>
      in saved self' w
           (save_update_fields (\<lambda>s row. row\<lparr>nstatus := nstatus s, read_at := read_at s\<rparr>) self' w))"

definition mark_as_failed :: "Notification \<Rightarrow> World \<Rightarrow> noutcome" where
  "mark_as_failed self w =
     (let self' = self\<lparr>nstatus := FAILED\<rparr>
      in saved self' w (save_update_fields (\<lambda>s row. row\<lparr>nstatus := nstatus s\<rparr>) self' w))"

text \<open>
  The bulk actions of \<^verbatim>\<open>NotificationAdmin\<close> (\<^verbatim>\<open>apps/websocket/admin.py\<close>) on the selected
  keys: \<^verbatim>\<open>queryset.filter(status=old).update(status=new)\<close>.
\<close>

definition filter_update :: "int set \<Rightarrow> NStatus \<Rightarrow> NStatus \<Rightarrow> World \<Rightarrow> World" where
  "filter_update queryset old new w =
     w\<lparr>notifications := (\<lambda>k. case notifications w k of
                                None \<Rightarrow> None
                              | Some row \<Rightarrow>
                                  if k \<in> queryset \<and> nstatus row = old
                                  then Some (row\<lparr>nstatus := new\<rparr>) else Some row)\<rparr>"

definition admin_mark_as_sent :: "int set \<Rightarrow> World \<Rightarrow> World" where
  "admin_mark_as_sent queryset w = filter_update queryset N_PENDING SENT w"

definition admin_mark_as_read :: "int set \<Rightarrow> World \<Rightarrow> World" where
  "admin_mark_as_read queryset w = filter_update queryset SENT READ w"

definition admin_mark_as_failed :: "int set \<Rightarrow> World \<Rightarrow> World" where
  "admin_mark_as_failed queryset w = filter_update queryset N_PENDING FAILED w"

definition admin_resend_notifications :: "int set \<Rightarrow> World \<Rightarrow> World" where
  "admin_resend_notifications queryset w = filter_update queryset FAILED N_PENDING w"

subsection \<open>Consumers (\<^verbatim>\<open>apps/websocket/consumers.py\<close>)\<close>

record Consumer =
  c_user :: "User option"
  group_name :: "string option"
  authenticated :: bool
  channel_name :: string

text \<open>A consumer as \<^verbatim>\<open>__init__\<close> leaves it, on the channel the layer gave it.\<close>

definition Consumer_init :: "string \<Rightarrow> Consumer" where
  "Consumer_init channel =
     \<lparr>c_user = None, group_name = None, authenticated = False, channel_name = channel\<rparr>"

text \<open>
  The channel layer (the library \<^verbatim>\<open>channels\<close>, which the consumers call). Its
  \<^verbatim>\<open>group_add\<close> and \<^verbatim>\<open>group_discard\<close> check the group name first and raise on a name that
  is not valid: a valid name has fewer than 100 characters and matches
  \<^verbatim>\<open>^[a-zA-Z\d\-_.]+$\<close>, that is, it consists of ASCII letters, digits, hyphens,
  underscores and periods (and, as \<^verbatim>\<open>$\<close> also matches before a final newline, may end
  with one newline). Names are ASCII text here.
\<close>

definition group_name_char :: "char \<Rightarrow> bool" where
  "group_name_char c =
     (c \<in> set ''abcdefghijklmnopqrstuvwxyzABCDEFGHIJKLMNOPQRSTUVWXYZ0123456789-_.'')"

definition valid_group_name :: "string \<Rightarrow> bool" where
  "valid_group_name name =
     (length name < 100 \<and>
      (let body = (if name \<noteq> [] \<and> last name = CHR 0x0A then butlast name else name)
       in body \<noteq> [] \<and> list_all group_name_char body))"

definition group_add :: "string \<Rightarrow> string \<Rightarrow> World \<Rightarrow> error + World" where
  "group_add g channel w =
     (if \<not> valid_group_name g then Inl TypeError
      else Inr (w\<lparr>groups := (groups w)(g := insert channel (groups w g))\<rparr>))"

definition group_discard :: "string \<Rightarrow> string \<Rightarrow> World \<Rightarrow> error + World" where
  "group_discard g channel w =
     (if \<not> valid_group_name g then Inl TypeError
      else Inr (w\<lparr>groups := (groups w)(g := groups w g - {channel})\<rparr>))"

definition startswith :: "string \<Rightarrow> string \<Rightarrow> bool" where
  "startswith s p = (take (length p) s = p)"

text \<open>A handler returns the state and the frames it sent down the socket, in order.\<close>

definition error_message :: "nat \<Rightarrow> pyval \<Rightarrow> Message" where
  "error_message now err =
     \<lparr>mtype = ''error'', payload = [(''error'', err), (''timestamp'', PTime now)], timestamp = now\<rparr>"

definition send_error_message :: "nat \<Rightarrow> string \<Rightarrow> World \<Rightarrow> World \<times> Message list" where
  "send_error_message now txt w = (w, [error_message now (PStr txt)])"

definition handle_ping :: "nat \<Rightarrow> World \<Rightarrow> World \<times> Message list" where
  "handle_ping now w =
     (w, [\<lparr>mtype = ''pong'', payload = [(''timestamp'', PTime now)], timestamp = now\<rparr>])"

text \<open>
  \<^verbatim>\<open>_handle_subscribe\<close>: the group name is taken when it is truthy and starts with
  \<^verbatim>\<open>user_\<close>. A truthy value that is no string has no \<^verbatim>\<open>startswith\<close>, and the channel
  layer raises on a name that is not valid: both exceptions are caught and answered with
  \<^verbatim>\<open>Subscription failed\<close>, and nothing is added.
\<close>

definition handle_subscribe ::
  "nat \<Rightarrow> Consumer \<Rightarrow> (string \<times> json) list \<Rightarrow> World \<Rightarrow> World \<times> Message list" where
  "handle_subscribe now self data w =
     (case map_of data ''group_name'' of
        None \<Rightarrow> send_error_message now ''Invalid group name'' w
      | Some v \<Rightarrow>
          if \<not> truthy v then send_error_message now ''Invalid group name'' w
          else
            (case v of
               JStr g \<Rightarrow>
                 if startswith g ''user_'' then
                   (case group_add g (channel_name self) w of
                      Inl e \<Rightarrow> send_error_message now ''Subscription failed'' w
                    | Inr w' \<Rightarrow>
                        (w', [\<lparr>mtype = ''subscribed'',
                               payload = [(''group_name'', PStr g),
                                          (''message'', PStr ''Successfully subscribed to group'')],
                               timestamp = now\<rparr>]))
                 else send_error_message now ''Invalid group name'' w
             | _ \<Rightarrow> send_error_message now ''Subscription failed'' w))"

definition handle_unsubscribe ::
  "nat \<Rightarrow> Consumer \<Rightarrow> (string \<times> json) list \<Rightarrow> World \<Rightarrow> World \<times> Message list" where
  "handle_unsubscribe now self data w =
     (case map_of data ''group_name'' of
        None \<Rightarrow> send_error_message now ''Invalid group name'' w
      | Some v \<Rightarrow>
          if \<not> truthy v then send_error_message now ''Invalid group name'' w
          else
            (case v of
               JStr g \<Rightarrow>
                 if startswith g ''user_'' then
                   (case group_discard g (channel_name self) w of
                      Inl e \<Rightarrow> send_error_message now ''Unsubscription failed'' w
                    | Inr w' \<Rightarrow>
                        (w', [\<lparr>mtype = ''unsubscribed'',
                               payload = [(''group_name'', PStr g),
                                          (''message'',
                                           PStr ''Successfully unsubscribed from group'')],
                               timestamp = now\<rparr>]))
                 else send_error_message now ''Invalid group name'' w
             | _ \<Rightarrow> send_error_message now ''Unsubscription failed'' w))"

definition handle_message ::
  "nat \<Rightarrow> Consumer \<Rightarrow> (string \<times> json) list \<Rightarrow> World \<Rightarrow> World \<times> Message list" where
  "handle_message now self data w =
     (let message_type = map_of data ''type'' in
      if message_type = Some (JStr ''ping'') then handle_ping now w
      else if message_type = Some (JStr ''subscribe'') then handle_subscribe now self data w
      else if message_type = Some (JStr ''unsubscribe'') then handle_unsubscribe now self data w
      else (w, [error_message now
                  (PFormat ''Unknown message type: ''
                     (case message_type of None \<Rightarrow> JNull | Some t \<Rightarrow> t))]))"

text \<open>
  \<^verbatim>\<open>receive\<close>, for a text frame that parses to a JSON object \<open>data\<close>: the connection must
  be authenticated and the object must have the key \<^verbatim>\<open>type\<close>.
\<close>

definition receive ::
  "nat \<Rightarrow> Consumer \<Rightarrow> (string \<times> json) list \<Rightarrow> World \<Rightarrow> World \<times> Message list" where
  "receive now self data w =
     (if \<not> authenticated self then send_error_message now ''Not authenticated'' w
      else if map_of data ''type'' = None then send_error_message now ''Invalid message structure'' w
      else handle_message now self data w)"

text \<open>
  \<^verbatim>\<open>connect\<close> of the base consumer with the user of the scope (\<open>None\<close>: absent or
  anonymous). The result is the consumer, the state and the close code, if the socket
  was closed (4001 without a user, 4000 when the channel layer raised), or the
  confirmation frame. The only group joined is the one of the verified user.
\<close>

definition connect ::
  "nat \<Rightarrow> Consumer \<Rightarrow> User option \<Rightarrow> World \<Rightarrow> Consumer \<times> World \<times> (nat + Message)" where
  "connect now self scope_user w =
     (case scope_user of
        None \<Rightarrow> (self\<lparr>c_user := None\<rparr>, w, Inl 4001)
      | Some u \<Rightarrow>
          (let g = ''user_'' @ str_int (uid u);
               self' = self\<lparr>c_user := Some u, group_name := Some g, authenticated := True\<rparr>
           in case group_add g (channel_name self') w of
                Inl e \<Rightarrow> (self', w, Inl 4000)
              | Inr w' \<Rightarrow>
                  (self', w',
                   Inr \<lparr>mtype = ''connection_confirmed'',
                        payload = [(''user_id'', PInt (uid u)), (''username'', PStr (username u)),
                                   (''role'', PStr (role_value (role u))),
                                   (''message'', PStr ''WebSocket connection established'')],
                        timestamp = now\<rparr>)))"

text \<open>
  \<^verbatim>\<open>OrderConsumer._join_order_groups\<close> and
  \<^verbatim>\<open>NotificationConsumer._join_notification_groups\<close>, called after \<^verbatim>\<open>connect\<close> on an
  authenticated consumer: the groups are computed from the verified user. An exception is
  logged and the groups stay as they are.
\<close>

definition joined :: "error + World \<Rightarrow> World \<Rightarrow> World" where
  "joined r w = (case r of Inl e \<Rightarrow> w | Inr w' \<Rightarrow> w')"

definition join_order_groups :: "Consumer \<Rightarrow> World \<Rightarrow> World" where
  "join_order_groups self w =
     (case c_user self of
        None \<Rightarrow> w
      | Some u \<Rightarrow>
          if is_client u
          then joined (group_add (''orders_client_'' @ str_int (uid u)) (channel_name self) w) w
          else if is_worker u then
            (case gender u of
               None \<Rightarrow> w
             | Some g \<Rightarrow>
                 joined (group_add (''orders_worker_'' @ gender_value g) (channel_name self) w) w)
          else if is_admin u then joined (group_add ''orders_admin'' (channel_name self) w) w
          else w)"

definition join_notification_groups :: "Consumer \<Rightarrow> World \<Rightarrow> World" where
  "join_notification_groups self w =
     (case c_user self of
        None \<Rightarrow> w
      | Some u \<Rightarrow>
          (case group_add (''notifications_'' @ str_int (uid u)) (channel_name self) w of
             Inl e \<Rightarrow> w
           | Inr w1 \<Rightarrow>
               if is_admin u
               then joined (group_add ''notifications_admin'' (channel_name self) w1) w1
               else w1))"

text \<open>
  \<^verbatim>\<open>NotificationConsumer._mark_notification_read\<close>:
  \<^verbatim>\<open>Notification.objects.get(id=notification_id, recipient=self.user)\<close>, then
  \<^verbatim>\<open>mark_as_read\<close>; a missing row and every other exception give \<^verbatim>\<open>False\<close>.
\<close>

definition mark_notification_read :: "nat \<Rightarrow> Consumer \<Rightarrow> int \<Rightarrow> World \<Rightarrow> bool \<times> World" where
  "mark_notification_read now self notification_id w =
     (case c_user self of
        None \<Rightarrow> (False, w)
      | Some user \<Rightarrow>
          (case notifications w notification_id of
             None \<Rightarrow> (False, w)
           | Some notification \<Rightarrow>
               if recipient_id notification \<noteq> uid user then (False, w)
               else
                 (case mark_as_read now notification w of
                    (Inl e, n', w') \<Rightarrow> (False, w')
                  | (Inr u, n', w') \<Rightarrow> (True, w'))))"

text \<open>\<^verbatim>\<open>_handle_mark_read\<close> with \<^verbatim>\<open>data.get("notification_id")\<close>, an integer or absent.\<close>

definition handle_mark_read ::
  "nat \<Rightarrow> Consumer \<Rightarrow> int option \<Rightarrow> World \<Rightarrow> World \<times> Message list" where
  "handle_mark_read now self notification_id w =
     (case truthy_id notification_id of
        None \<Rightarrow> send_error_message now ''Notification ID is required'' w
      | Some n \<Rightarrow>
          (case mark_notification_read now self n w of
             (True, w') \<Rightarrow>
               (w', [\<lparr>mtype = ''mark_read_response'',
                      payload = [(''notification_id'', PInt n), (''status'', PStr ''read''),
                                 (''message'', PStr ''Notification marked as read'')],
                      timestamp = now\<rparr>])
           | (False, w') \<Rightarrow> send_error_message now ''Failed to mark notification as read'' w'))"

subsection \<open>Stored orders and test data\<close>

text \<open>
  An instance is \<open>stored\<close> when it is the row of the table under its own non-zero key:
  what \<^verbatim>\<open>get_order_by_id\<close> hands to the views.
\<close>

definition stored :: "Order \<Rightarrow> World \<Rightarrow> bool" where
  "stored order w =
     (case pk order of None \<Rightarrow> False | Some k \<Rightarrow> k \<noteq> 0 \<and> orders w k = Some order)"

text \<open>The row that \<^verbatim>\<open>Order.save\<close> writes over the stored row \<open>old\<close>.\<close>

definition written :: "nat \<Rightarrow> Order \<Rightarrow> Order \<Rightarrow> Order" where
  "written now old self = (stamp now old self)\<lparr>updated_at := now\<rparr>"

text \<open>The users and the order of \<^verbatim>\<open>apps/orders/tests.py\<close>, with two more users.\<close>

definition client_user :: User where
  "client_user = \<lparr>uid = 1, username = ''testclient'', role = CLIENT, gender = Some FEMALE\<rparr>"

definition worker_user :: User where
  "worker_user = \<lparr>uid = 2, username = ''testworker'', role = WORKER, gender = Some FEMALE\<rparr>"

definition other_worker :: User where
  "other_worker = \<lparr>uid = 3, username = ''otherworker'', role = WORKER, gender = Some FEMALE\<rparr>"

definition other_client :: User where
  "other_client = \<lparr>uid = 4, username = ''otherclient'', role = CLIENT, gender = Some MALE\<rparr>"

definition test_order :: "Status \<Rightarrow> int option \<Rightarrow> Order" where
  "test_order s worker =
     \<lparr>pk = Some 1, service_name = ''Test Service'', description = [], price = 1000,
      status = s, client = client_user, worker_id = worker, created_at = 0, updated_at = 0,
      paid_at = None, completed_at = None\<rparr>"

definition test_world :: "Order \<Rightarrow> World" where
  "test_world order =
     \<lparr>orders = [1 \<mapsto> order], order_seq = 1,
      users = [client_user, worker_user, other_worker, other_client],
      notifications = Map.empty, groups = (\<lambda>g. {}), group_sent = []\<rparr>"

definition test_notification :: "NStatus \<Rightarrow> Notification" where
  "test_notification s =
     \<lparr>nid = Some 1, ntype = ''order_created'', title = ''Order created'', message = ''created'',
      recipient_id = 1, sender_id = None, nstatus = s, priority = 1, n_created_at = 0,
      sent_at = None, read_at = None\<rparr>"

definition notified_world :: "Notification \<Rightarrow> World" where
  "notified_world n = (test_world (test_order PENDING None))\<lparr>notifications := [1 \<mapsto> n]\<rparr>"

definition test_consumer :: "User \<Rightarrow> Consumer" where
  "test_consumer u =
     \<lparr>c_user = Some u, group_name = Some (''user_'' @ str_int (uid u)), authenticated = True,
      channel_name = ''channel_1''\<rparr>"

text \<open>
  The message names a group that the handlers accept: a string that starts with
  \<^verbatim>\<open>user_\<close> and is a valid group name.
\<close>

definition names_user_group :: "(string \<times> json) list \<Rightarrow> string \<Rightarrow> bool" where
  "names_user_group data g =
     (map_of data ''group_name'' = Some (JStr g) \<and> startswith g ''user_''
      \<and> valid_group_name g)"

text \<open>The sends of one message to the groups of the users \<open>ids\<close>, and the workers of a gender.\<close>

definition sent_to :: "int list \<Rightarrow> Message \<Rightarrow> (string \<times> Message) list" where
  "sent_to ids msg = map (\<lambda>i. (''user_'' @ str_int i, msg)) ids"

definition worker_ids :: "Gender option \<Rightarrow> World \<Rightarrow> int list" where
  "worker_ids g w = map uid (filter (\<lambda>u. role u = WORKER \<and> gender u = g) (users w))"

subsection \<open>Requests on stored orders\<close>

text \<open>
  The calls of \<^verbatim>\<open>OrderService\<close> and \<^verbatim>\<open>PaymentService\<close> that change an order. \<open>perform\<close>
  makes the call on an instance and tells whether it succeeded (it returned, and returned
  \<^verbatim>\<open>True\<close> where it returns a boolean). A \<open>request\<close> loads the row of the table and performs
  the call on it, as every view does; \<open>run\<close> serves requests one after the other.
\<close>

datatype operation =
    UpdateStatus "Status option" User StatusUpdateData
  | AssignWorker User User
  | StartWork User
  | Complete User
  | Cancel User string
  | ProcessPayment bool
  | Refund User string

fun returned :: "unit outcome \<Rightarrow> bool \<times> Order \<times> World" where
  "returned (r, order, w) = ((case r of Inl e \<Rightarrow> False | Inr u \<Rightarrow> True), order, w)"

fun returned_true :: "bool outcome \<Rightarrow> bool \<times> Order \<times> World" where
  "returned_true (r, order, w) = (r = Inr True, order, w)"

fun perform :: "nat \<Rightarrow> operation \<Rightarrow> Order \<Rightarrow> World \<Rightarrow> bool \<times> Order \<times> World" where
  "perform now (UpdateStatus new_status user kwargs) order w =
     returned (update_order_status now order new_status user kwargs w)"
| "perform now (AssignWorker worker user) order w =
     returned_true (assign_worker_to_order now order worker user w)"
| "perform now (StartWork user) order w = returned_true (start_order_work now order user w)"
| "perform now (Complete user) order w = returned_true (complete_order now order user w)"
| "perform now (Cancel user reason) order w =
     returned_true (cancel_order now order user reason w)"
| "perform now (ProcessPayment success) order w =
     returned (process_payment now order success w)"
| "perform now (Refund user reason) order w =
     returned_true (refund_payment now order user reason w)"

definition request :: "nat \<Rightarrow> int \<Rightarrow> operation \<Rightarrow> World \<Rightarrow> World" where
  "request now oid opn w =
     (case orders w oid of None \<Rightarrow> w | Some order \<Rightarrow> snd (snd (perform now opn order w)))"

fun run :: "(nat \<times> int \<times> operation) list \<Rightarrow> World \<Rightarrow> World" where
  "run [] w = w"
| "run ((now, oid, opn) # rs) w = run rs (request now oid opn w)"

text \<open>Every row of the order table is stored under its own key, and no key is zero.\<close>

definition rows_keyed :: "World \<Rightarrow> bool" where
  "rows_keyed w = (\<forall>k order. orders w k = Some order \<longrightarrow> pk order = Some k \<and> k \<noteq> 0)"

text \<open>
  \<open>keeps order order'\<close>: the later row \<open>order'\<close> has the key of \<open>order\<close>, it is \<open>order\<close>
  itself or has left Pending, it has the
  \<^verbatim>\<open>completed_at\<close> of \<open>order\<close> if that was set and, if \<open>order\<close> had left Pending, it has not
  come back to Pending and has the \<^verbatim>\<open>paid_at\<close> of \<open>order\<close> if that was set.
\<close>

definition keeps :: "Order \<Rightarrow> Order \<Rightarrow> bool" where
  "keeps order order' =
     (pk order' = pk order
      \<and> (order' = order \<or> status order' \<noteq> PENDING)
      \<and> (status order \<noteq> PENDING \<longrightarrow>
           status order' \<noteq> PENDING \<and> (\<forall>t. paid_at order = Some t \<longrightarrow> paid_at order' = Some t))
      \<and> (\<forall>t. completed_at order = Some t \<longrightarrow> completed_at order' = Some t))"

text \<open>
  What a call on the stored row \<open>order\<close> of key \<open>k\<close> does to the table: a successful call
  writes the returned instance under \<open>k\<close>, an unsuccessful one writes nothing.
\<close>

definition effect :: "int \<Rightarrow> Order \<Rightarrow> World \<Rightarrow> bool \<times> Order \<times> World \<Rightarrow> bool" where
  "effect k order w res =
     (case res of (b, order', w') \<Rightarrow>
        if b then orders w' = (orders w)(k \<mapsto> order') \<and> keeps order order'
                  \<and> status order' \<noteq> PENDING
                  \<and> (status order \<noteq> PAID \<and> status order' = PAID \<longrightarrow> paid_at order' \<noteq> None)
                  \<and> (status order \<noteq> COMPLETED \<and> status order' = COMPLETED \<longrightarrow>
                       completed_at order' \<noteq> None)
        else orders w' = orders w)"

text \<open>Requests that follow a payment of the test order, and two orders with a time stamp.\<close>

definition later_requests :: "(nat \<times> int \<times> operation) list" where
  "later_requests =
     [(8, 1, AssignWorker worker_user worker_user),
      (9, 1, StartWork worker_user),
      (10, 1, ProcessPayment True),
      (11, 1, Complete worker_user),
      (12, 1, Refund client_user ''late'')]"

definition paid_order :: Order where
  "paid_order = (test_order PAID None)\<lparr>paid_at := Some 3\<rparr>"

definition completed_order :: Order where
  "completed_order = (test_order COMPLETED (Some 2))\<lparr>paid_at := Some 3, completed_at := Some 5\<rparr>"

section \<open>Properties\<close>

text \<open>
  C1. For every ordered pair of statuses the transition check is true exactly on the six
  edges Pending-Paid, Pending-Canceled, Paid-InProgress, Paid-Canceled,
  InProgress-Completed, InProgress-Canceled; every other pair, every self-pair included,
  is rejected. The check is a total function of its two arguments and of nothing else.
\<close>

theorem is_valid_status_transition_graph:
  "is_valid_status_transition s s' =
     ((s, s') \<in> {(PENDING, PAID), (PENDING, CANCELED),
                 (PAID, IN_PROGRESS), (PAID, CANCELED),
                 (IN_PROGRESS, COMPLETED), (IN_PROGRESS, CANCELED)})
   \<and> \<not> is_valid_status_transition s s"
  by (cases s; cases s') (simp_all add: is_valid_status_transition_def valid_transitions_def)

subsection \<open>Sending a message changes no table and no group\<close>

lemma notify_user_frame [simp]:
  "orders (notify_user i m w) = orders w"
  "order_seq (notify_user i m w) = order_seq w"
  "users (notify_user i m w) = users w"
  "notifications (notify_user i m w) = notifications w"
  "groups (notify_user i m w) = groups w"
  by (simp_all add: notify_user_def)

lemma notify_users_frame [simp]:
  "orders (notify_users ids m w) = orders w"
  "order_seq (notify_users ids m w) = order_seq w"
  "users (notify_users ids m w) = users w"
  "notifications (notify_users ids m w) = notifications w"
  "groups (notify_users ids m w) = groups w"
  by (induction ids arbitrary: w; simp)+

lemma notify_workers_by_gender_frame [simp]:
  "orders (notify_workers_by_gender g m w) = orders w"
  "order_seq (notify_workers_by_gender g m w) = order_seq w"
  "users (notify_workers_by_gender g m w) = users w"
  "notifications (notify_workers_by_gender g m w) = notifications w"
  "groups (notify_workers_by_gender g m w) = groups w"
  by (simp_all add: notify_workers_by_gender_def Let_def)

lemma notify_order_created_frame [simp]:
  "orders (notify_order_created now order w) = orders w"
  "order_seq (notify_order_created now order w) = order_seq w"
  "users (notify_order_created now order w) = users w"
  "groups (notify_order_created now order w) = groups w"
  by (simp_all add: notify_order_created_def Let_def)

lemma notify_order_updated_frame [simp]:
  "orders (notify_order_updated now order old w) = orders w"
  "order_seq (notify_order_updated now order old w) = order_seq w"
  "users (notify_order_updated now order old w) = users w"
  "groups (notify_order_updated now order old w) = groups w"
  by (simp_all add: notify_order_updated_def Let_def)

lemma notify_payment_processed_frame [simp]:
  "orders (notify_payment_processed now order s w) = orders w"
  "order_seq (notify_payment_processed now order s w) = order_seq w"
  "users (notify_payment_processed now order s w) = users w"
  "groups (notify_payment_processed now order s w) = groups w"
  by (simp_all add: notify_payment_processed_def Let_def)

subsection \<open>Saving a stored order\<close>

lemma stamp_fields [simp]:
  "pk (stamp now old self) = pk self"
  "status (stamp now old self) = status self"
  "client (stamp now old self) = client self"
  "worker_id (stamp now old self) = worker_id self"
  "created_at (stamp now old self) = created_at self"
  by (simp_all add: stamp_def)

lemma written_fields [simp]:
  "pk (written now old self) = pk self"
  "status (written now old self) = status self"
  "client (written now old self) = client self"
  "worker_id (written now old self) = worker_id self"
  by (simp_all add: written_def)

lemma created_at_same:
  "created_at r = c \<Longrightarrow> r\<lparr>updated_at := now, created_at := c\<rparr> = r\<lparr>updated_at := now\<rparr>"
  by (cases r) simp

lemma save_and_return_stored:
  assumes "pk self = Some k" "k \<noteq> 0" "orders w k = Some old"
  shows "save_and_return now self w v =
     (Inr v, written now old self, w\<lparr>orders := (orders w)(k \<mapsto> written now old self)\<rparr>)"
  using assms
  by (simp add: save_and_return_def Order_save_def Model_save_def written_def Let_def
      created_at_same)

lemma storedE:
  assumes "stored order w"
  obtains k where "pk order = Some k" "k \<noteq> 0" "orders w k = Some order"
  using assms by (auto simp: stored_def split: option.splits)

subsection \<open>Payments\<close>

lemma process_payment_not_pending:
  "status order \<noteq> PENDING \<Longrightarrow>
   process_payment now order success w = (Inl PaymentProcessingError, order, w)"
  by (simp add: process_payment_def can_be_paid_def)

lemma process_payment_failure:
  assumes "status order = PENDING" "stored order w"
  shows "\<exists>order' w'. process_payment now order False w = (Inr (), order', w')
      \<and> status order' = CANCELED \<and> paid_at order' = paid_at order \<and> stored order' w'"
proof -
  from assms(2) obtain k where k: "pk order = Some k" "k \<noteq> 0" "orders w k = Some order"
    by (rule storedE)
  have "save_and_return now (order\<lparr>status := CANCELED\<rparr>) w () =
     (Inr (), written now order (order\<lparr>status := CANCELED\<rparr>),
       w\<lparr>orders := (orders w)(k \<mapsto> written now order (order\<lparr>status := CANCELED\<rparr>))\<rparr>)"
    using k by (intro save_and_return_stored) simp_all
  then show ?thesis using assms(1) k
    by (simp add: process_payment_def can_be_paid_def stored_def) (simp add: written_def stamp_def)
qed

lemma process_payment_success:
  assumes "status order = PENDING" "stored order w"
  shows "\<exists>order' w'. process_payment now order True w = (Inr (), order', w')
      \<and> status order' = PAID \<and> paid_at order' = Some now \<and> stored order' w'"
proof -
  from assms(2) obtain k where k: "pk order = Some k" "k \<noteq> 0" "orders w k = Some order"
    by (rule storedE)
  have "save_and_return now (order\<lparr>status := PAID, paid_at := Some now\<rparr>) w () =
     (Inr (), written now order (order\<lparr>status := PAID, paid_at := Some now\<rparr>),
       w\<lparr>orders := (orders w)(k \<mapsto> written now order (order\<lparr>status := PAID, paid_at := Some now\<rparr>))\<rparr>)"
    using k by (intro save_and_return_stored) simp_all
  then show ?thesis using assms(1) k
    by (simp add: process_payment_def can_be_paid_def stored_def) (simp add: written_def stamp_def)
qed

text \<open>
  C8. On a stored order whose status is Pending, \<^verbatim>\<open>process_payment\<close> with
  \<^verbatim>\<open>success=False\<close> returns the order with status Canceled and \<^verbatim>\<open>paid_at\<close> as it was,
  that is unset (no service sets \<^verbatim>\<open>paid_at\<close> of an order that stays Pending), and with
  \<^verbatim>\<open>success=True\<close> it returns the order with status Paid and \<^verbatim>\<open>paid_at\<close> set to the
  current time; both results are the stored row afterwards.
  On an order of any other status both calls raise \<^verbatim>\<open>PaymentProcessingError\<close> and leave
  the instance and the state as they were.
\<close>

theorem process_payment_outcomes:
  "(status order = PENDING \<and> stored order w \<longrightarrow>
      (\<exists>order' w'. process_payment now order False w = (Inr (), order', w')
          \<and> status order' = CANCELED \<and> paid_at order' = paid_at order
          \<and> (paid_at order = None \<longrightarrow> paid_at order' = None) \<and> stored order' w')
    \<and> (\<exists>order' w'. process_payment now order True w = (Inr (), order', w')
          \<and> status order' = PAID \<and> paid_at order' = Some now \<and> stored order' w'))
   \<and> (status order \<noteq> PENDING \<longrightarrow>
        process_payment now order success w = (Inl PaymentProcessingError, order, w))"
  using process_payment_failure [of order w now] process_payment_success [of order w now]
    process_payment_not_pending [of order now success w]
  by auto

theorem process_payment_outcomes_witness:
  "status (test_order PENDING None) = PENDING
   \<and> stored (test_order PENDING None) (test_world (test_order PENDING None))
   \<and> paid_at (test_order PENDING None) = None
   \<and> (\<exists>order' w'. process_payment 7 (test_order PENDING None) False
                      (test_world (test_order PENDING None)) = (Inr (), order', w')
          \<and> status order' = CANCELED \<and> paid_at order' = None \<and> stored order' w')
   \<and> (\<exists>order' w'. process_payment 7 (test_order PENDING None) True
                      (test_world (test_order PENDING None)) = (Inr (), order', w')
          \<and> status order' = PAID \<and> paid_at order' = Some 7 \<and> stored order' w')
   \<and> status (test_order PAID None) \<noteq> PENDING
   \<and> process_payment 7 (test_order PAID None) True (test_world (test_order PAID None))
       = (Inl PaymentProcessingError, test_order PAID None, test_world (test_order PAID None))"
proof -
  have a: "status (test_order PENDING None) = PENDING"
    and b: "stored (test_order PENDING None) (test_world (test_order PENDING None))"
    and c: "paid_at (test_order PENDING None) = None"
    and d: "status (test_order PAID None) \<noteq> PENDING"
    by (simp_all add: test_order_def test_world_def stored_def)
  from process_payment_outcomes [of "test_order PENDING None"
      "test_world (test_order PENDING None)" 7 True] a b c
  have "(\<exists>order' w'. process_payment 7 (test_order PENDING None) False
                      (test_world (test_order PENDING None)) = (Inr (), order', w')
          \<and> status order' = CANCELED \<and> paid_at order' = None \<and> stored order' w')
   \<and> (\<exists>order' w'. process_payment 7 (test_order PENDING None) True
                      (test_world (test_order PENDING None)) = (Inr (), order', w')
          \<and> status order' = PAID \<and> paid_at order' = Some 7 \<and> stored order' w')"
    by auto
  moreover from process_payment_outcomes [of "test_order PAID None"
      "test_world (test_order PAID None)" 7 True] d
  have "process_payment 7 (test_order PAID None) True (test_world (test_order PAID None))
       = (Inl PaymentProcessingError, test_order PAID None, test_world (test_order PAID None))"
    by blast
  ultimately show ?thesis using a b c d by blast
qed

subsection \<open>Completing an order\<close>

lemma complete_order_other_actor:
  "worker_id order \<noteq> Some (uid user) \<Longrightarrow>
   complete_order now order user w = (Inl InsufficientPermissionsError, order, w)"
  by (simp add: complete_order_def)

lemma complete_order_true:
  "fst (complete_order now order user w) = Inr True \<Longrightarrow>
   worker_id order = Some (uid user) \<and> status order = IN_PROGRESS
   \<and> can_user_manage_order user order"
  by (auto simp: complete_order_def Order_complete_order_def can_be_completed_def
      split: if_splits prod.splits sum.splits bool.splits)

lemma complete_order_assigned:
  assumes "stored order w" "status order = IN_PROGRESS" "worker_id order = Some (uid user)"
    "can_user_manage_order user order"
  shows "\<exists>order' w'. complete_order now order user w = (Inr True, order', w')
     \<and> status order' = COMPLETED
     \<and> completed_at order' = (case completed_at order of None \<Rightarrow> Some now | Some t \<Rightarrow> Some t)
     \<and> stored order' w'"
proof -
  from assms(1) obtain k where k: "pk order = Some k" "k \<noteq> 0" "orders w k = Some order"
    by (rule storedE)
  have "save_and_return now (order\<lparr>status := COMPLETED\<rparr>) w True =
     (Inr True, written now order (order\<lparr>status := COMPLETED\<rparr>),
       w\<lparr>orders := (orders w)(k \<mapsto> written now order (order\<lparr>status := COMPLETED\<rparr>))\<rparr>)"
    using k by (intro save_and_return_stored) simp_all
  then show ?thesis using assms k
    by (simp add: complete_order_def Order_complete_order_def can_be_completed_def stored_def)
       (simp add: written_def stamp_def split: option.splits)
qed

text \<open>
  C4, as the claim states it, fails: for the test order in progress, assigned to worker 2,
  \<^verbatim>\<open>OrderService.complete_order\<close> called by worker 3 does not return \<^verbatim>\<open>False\<close>; it
  raises \<^verbatim>\<open>InsufficientPermissionsError\<close>.
\<close>

theorem complete_order_returns_false_counterexample:
  "status (test_order IN_PROGRESS (Some 2)) = IN_PROGRESS
   \<and> worker_id (test_order IN_PROGRESS (Some 2)) \<noteq> Some (uid other_worker)
   \<and> fst (complete_order 7 (test_order IN_PROGRESS (Some 2)) other_worker
            (test_world (test_order IN_PROGRESS (Some 2)))) = Inl InsufficientPermissionsError
   \<and> fst (complete_order 7 (test_order IN_PROGRESS (Some 2)) other_worker
            (test_world (test_order IN_PROGRESS (Some 2)))) \<noteq> Inr False"
  by (simp add: complete_order_def test_order_def other_worker_def)

text \<open>
  C4, amended. For every order and every actor who is not the order's assigned worker,
  \<^verbatim>\<open>complete_order\<close> raises \<^verbatim>\<open>InsufficientPermissionsError\<close> (it does not return
  \<^verbatim>\<open>False\<close>) and leaves the order and the state unchanged. It returns \<^verbatim>\<open>True\<close> only when
  the actor is the assigned worker, may manage the order and the order is in progress; for
  a stored order in that case it does return \<^verbatim>\<open>True\<close>, the status is Completed and
  \<^verbatim>\<open>completed_at\<close> is set (to the current time unless it was set before).
\<close>

theorem complete_order_requires_assigned_worker:
  "(worker_id order \<noteq> Some (uid user) \<longrightarrow>
      complete_order now order user w = (Inl InsufficientPermissionsError, order, w))
   \<and> (fst (complete_order now order user w) = Inr True \<longrightarrow>
        worker_id order = Some (uid user) \<and> status order = IN_PROGRESS
        \<and> can_user_manage_order user order)
   \<and> (stored order w \<and> status order = IN_PROGRESS \<and> worker_id order = Some (uid user)
        \<and> can_user_manage_order user order \<longrightarrow>
        (\<exists>order' w'. complete_order now order user w = (Inr True, order', w')
           \<and> status order' = COMPLETED
           \<and> completed_at order' =
               (case completed_at order of None \<Rightarrow> Some now | Some t \<Rightarrow> Some t)
           \<and> stored order' w'))"
  using complete_order_other_actor [of order user now w]
    complete_order_true [of now order user w]
    complete_order_assigned [of order w user now]
  by blast

theorem complete_order_requires_assigned_worker_witness:
  "worker_id (test_order IN_PROGRESS (Some 2)) \<noteq> Some (uid other_worker)
   \<and> complete_order 7 (test_order IN_PROGRESS (Some 2)) other_worker
        (test_world (test_order IN_PROGRESS (Some 2)))
      = (Inl InsufficientPermissionsError, test_order IN_PROGRESS (Some 2),
         test_world (test_order IN_PROGRESS (Some 2)))
   \<and> stored (test_order IN_PROGRESS (Some 2)) (test_world (test_order IN_PROGRESS (Some 2)))
   \<and> status (test_order IN_PROGRESS (Some 2)) = IN_PROGRESS
   \<and> worker_id (test_order IN_PROGRESS (Some 2)) = Some (uid worker_user)
   \<and> can_user_manage_order worker_user (test_order IN_PROGRESS (Some 2))
   \<and> (\<exists>order' w'. complete_order 7 (test_order IN_PROGRESS (Some 2)) worker_user
          (test_world (test_order IN_PROGRESS (Some 2))) = (Inr True, order', w')
        \<and> status order' = COMPLETED \<and> completed_at order' = Some 7 \<and> stored order' w')"
proof -
  have a: "worker_id (test_order IN_PROGRESS (Some 2)) \<noteq> Some (uid other_worker)"
    and b: "stored (test_order IN_PROGRESS (Some 2)) (test_world (test_order IN_PROGRESS (Some 2)))"
    and c: "status (test_order IN_PROGRESS (Some 2)) = IN_PROGRESS"
    and d: "worker_id (test_order IN_PROGRESS (Some 2)) = Some (uid worker_user)"
    and e: "can_user_manage_order worker_user (test_order IN_PROGRESS (Some 2))"
    and f: "completed_at (test_order IN_PROGRESS (Some 2)) = None"
    by (simp_all add: test_order_def test_world_def stored_def other_worker_def worker_user_def
        client_user_def can_user_manage_order_def is_admin_def is_worker_def)
  from complete_order_requires_assigned_worker
         [of "test_order IN_PROGRESS (Some 2)" other_worker 7
             "test_world (test_order IN_PROGRESS (Some 2))"] a
  have g: "complete_order 7 (test_order IN_PROGRESS (Some 2)) other_worker
        (test_world (test_order IN_PROGRESS (Some 2)))
      = (Inl InsufficientPermissionsError, test_order IN_PROGRESS (Some 2),
         test_world (test_order IN_PROGRESS (Some 2)))"
    by blast
  from complete_order_requires_assigned_worker
         [of "test_order IN_PROGRESS (Some 2)" worker_user 7
             "test_world (test_order IN_PROGRESS (Some 2))"] b c d e f
  have "\<exists>order' w'. complete_order 7 (test_order IN_PROGRESS (Some 2)) worker_user
          (test_world (test_order IN_PROGRESS (Some 2))) = (Inr True, order', w')
        \<and> status order' = COMPLETED \<and> completed_at order' = Some 7 \<and> stored order' w'"
    by auto
  with a b c d e g show ?thesis by blast
qed

subsection \<open>Requests through the views\<close>






lemma destroy_not_pending:
  assumes "orders w oid = Some order" "status order \<noteq> PENDING"
  shows "status_code (fst (OrderDetailView_destroy user oid w)) \<in> {400, 403}
     \<and> snd (OrderDetailView_destroy user oid w) = w"
  using assms
  by (simp add: OrderDetailView_destroy_def get_order_by_id_def is_pending_def)

lemma destroy_pending:
  assumes "orders w oid = Some order" "status order = PENDING"
    "can_user_view_order user order" "pk order = Some oid"
  shows "fst (OrderDetailView_destroy user oid w) = Response NoBody 204
     \<and> orders (snd (OrderDetailView_destroy user oid w)) oid = None"
  using assms
  by (simp add: OrderDetailView_destroy_def get_order_by_id_def is_pending_def
      Order_delete_def)

text \<open>
  C10. For every stored order whose status is not Pending, the delete request of the
  order-detail view is answered with a client error (400, or 403 when the actor may not
  view the order) and the state is left as it was; so a request that changes the state
  was made on a Pending order. A Pending order that the actor may view is deleted, with
  answer 204.
\<close>

theorem destroy_only_pending:
  "orders w oid = Some order \<Longrightarrow>
   (status order \<noteq> PENDING \<longrightarrow>
      status_code (fst (OrderDetailView_destroy user oid w)) \<in> {400, 403}
      \<and> snd (OrderDetailView_destroy user oid w) = w)
   \<and> (snd (OrderDetailView_destroy user oid w) \<noteq> w \<longrightarrow> status order = PENDING)
   \<and> (status order = PENDING \<and> can_user_view_order user order \<and> pk order = Some oid \<longrightarrow>
        fst (OrderDetailView_destroy user oid w) = Response NoBody 204
        \<and> orders (snd (OrderDetailView_destroy user oid w)) oid = None)"
  using destroy_not_pending [of w oid order user] destroy_pending [of w oid order user]
  by blast

theorem destroy_only_pending_witness:
  "orders (test_world (test_order PAID None)) 1 = Some (test_order PAID None)
   \<and> status (test_order PAID None) \<noteq> PENDING
   \<and> status_code (fst (OrderDetailView_destroy client_user 1 (test_world (test_order PAID None))))
       \<in> {400, 403}
   \<and> snd (OrderDetailView_destroy client_user 1 (test_world (test_order PAID None)))
       = test_world (test_order PAID None)
   \<and> orders (test_world (test_order PENDING None)) 1 = Some (test_order PENDING None)
   \<and> status (test_order PENDING None) = PENDING
   \<and> can_user_view_order client_user (test_order PENDING None)
   \<and> pk (test_order PENDING None) = Some 1
   \<and> fst (OrderDetailView_destroy client_user 1 (test_world (test_order PENDING None)))
       = Response NoBody 204
   \<and> orders (snd (OrderDetailView_destroy client_user 1 (test_world (test_order PENDING None)))) 1
       = None"
proof -
  have a: "orders (test_world (test_order PAID None)) 1 = Some (test_order PAID None)"
    and b: "status (test_order PAID None) \<noteq> PENDING"
    and c: "orders (test_world (test_order PENDING None)) 1 = Some (test_order PENDING None)"
    and d: "status (test_order PENDING None) = PENDING"
    and e: "can_user_view_order client_user (test_order PENDING None)"
    and f: "pk (test_order PENDING None) = Some 1"
    by (simp_all add: test_world_def test_order_def can_user_view_order_def client_user_def
        is_admin_def is_client_def is_worker_def)
  from destroy_only_pending [OF a, of client_user] b
  have g: "status_code (fst (OrderDetailView_destroy client_user 1 (test_world (test_order PAID None))))
       \<in> {400, 403}
   \<and> snd (OrderDetailView_destroy client_user 1 (test_world (test_order PAID None)))
       = test_world (test_order PAID None)"
    by blast
  from destroy_only_pending [OF c, of client_user] d e f
  have h: "fst (OrderDetailView_destroy client_user 1 (test_world (test_order PENDING None)))
       = Response NoBody 204
   \<and> orders (snd (OrderDetailView_destroy client_user 1 (test_world (test_order PENDING None)))) 1
       = None"
    by blast
  from a b c d e f g h show ?thesis by blast
qed

subsection \<open>The dispatcher\<close>

lemma notify_user_sent:
  "group_sent (notify_user i m w) = group_sent w @ [(''user_'' @ str_int i, m)]"
  by (simp add: notify_user_def)

lemma notify_users_sent:
  "group_sent (notify_users ids m w) = group_sent w @ sent_to ids m"
  by (induction ids arbitrary: w) (simp_all add: notify_user_sent sent_to_def)

lemma notify_workers_by_gender_sent:
  "group_sent (notify_workers_by_gender g m w) = group_sent w @ sent_to (worker_ids g w) m"
  by (simp add: notify_workers_by_gender_def Let_def notify_users_sent worker_ids_def
      sent_to_def)

lemma worker_ids_notify_user: "worker_ids g (notify_user i m w) = worker_ids g w"
  by (simp add: worker_ids_def)

text \<open>
  C3, as the claim states it, fails: after the dispatcher has handled the creation of the
  test order, the notification table holds no record, Pending or other.
\<close>

theorem dispatcher_persists_record_counterexample:
  "\<not> (\<exists>k n. notifications (notify_order_created 7 (test_order PENDING None)
                              (test_world (test_order PENDING None))) k = Some n
            \<and> nstatus n = N_PENDING)"
  by (simp add: notify_order_created_def Let_def test_world_def)

text \<open>
  C3, amended. For every event handled by the dispatcher the notification table is the
  same before and after (no record is created and none is marked), and the sends to the
  channel layer are exactly these, in this order: for a created order, the
  \<^verbatim>\<open>order_created\<close> message to the group \<^verbatim>\<open>user_<client id>\<close>, then the \<^verbatim>\<open>new_order\<close>
  message to the group \<^verbatim>\<open>user_<id>\<close> of every worker whose gender is the client's; for an
  updated order, nothing when the status is the old one, else the \<^verbatim>\<open>order_updated\<close>
  message to the client's group and, when the new status is InProgress or Completed, a
  second \<^verbatim>\<open>order_updated\<close> message to the group of every such worker; for a processed
  payment, the \<^verbatim>\<open>payment_success\<close> or \<^verbatim>\<open>payment_failed\<close> message to the client's group
  and to the group of every such worker.
\<close>

theorem dispatcher_persists_no_record:
  "notifications (notify_order_created now order w) = notifications w
   \<and> notifications (notify_order_updated now order old_status w) = notifications w
   \<and> notifications (notify_payment_processed now order success w) = notifications w
   \<and> group_sent (notify_order_created now order w)
       = group_sent w
         @ (''user_'' @ str_int (uid (client order)),
            create_order_message now ''order_created'' (order_id order)
              [(''status'', PStr (status_value (status order)))])
         # sent_to (worker_ids (gender (client order)) w)
             (create_order_message now ''new_order'' (order_id order)
                [(''client'', PStr (username (client order)))])
   \<and> group_sent (notify_order_updated now order old_status w)
       = (if status order = old_status then group_sent w
          else group_sent w
            @ (''user_'' @ str_int (uid (client order)),
               create_order_message now ''order_updated'' (order_id order)
                 [(''status'', PStr (status_value (status order))),
                  (''old_status'', PStr (status_value old_status))])
            # (if status order = IN_PROGRESS \<or> status order = COMPLETED
               then sent_to (worker_ids (gender (client order)) w)
                      (create_order_message now ''order_updated'' (order_id order)
                         [(''status'', PStr (status_value (status order)))])
               else []))
   \<and> group_sent (notify_payment_processed now order success w)
       = group_sent w
         @ (''user_'' @ str_int (uid (client order)),
            create_order_message now
              (if success then ''payment_success'' else ''payment_failed'') (order_id order)
              [(''status'', PStr (status_value (status order)))])
         # sent_to (worker_ids (gender (client order)) w)
             (create_order_message now
                (if success then ''payment_success'' else ''payment_failed'') (order_id order)
                [(''status'', PStr (status_value (status order)))])"
  by (simp add: notify_order_created_def notify_order_updated_def
      notify_payment_processed_def Let_def notify_workers_by_gender_sent notify_user_sent
      worker_ids_notify_user)

theorem dispatcher_persists_no_record_witness:
  "map fst (group_sent (notify_order_created 7 (test_order PENDING None)
                          (test_world (test_order PENDING None))))
     = [''user_1'', ''user_2'', ''user_3'']
   \<and> map (mtype \<circ> snd) (group_sent (notify_order_created 7 (test_order PENDING None)
                          (test_world (test_order PENDING None))))
     = [''order_created'', ''new_order'', ''new_order'']
   \<and> map fst (group_sent (notify_order_updated 7 (test_order PAID None) PENDING
                          (test_world (test_order PAID None))))
     = [''user_1'']
   \<and> map fst (group_sent (notify_order_updated 7 (test_order COMPLETED (Some 2)) IN_PROGRESS
                          (test_world (test_order COMPLETED (Some 2)))))
     = [''user_1'', ''user_2'', ''user_3'']
   \<and> map fst (group_sent (notify_payment_processed 7 (test_order PAID None) True
                          (test_world (test_order PAID None))))
     = [''user_1'', ''user_2'', ''user_3'']
   \<and> notifications (notify_order_created 7 (test_order PENDING None)
                       (test_world (test_order PENDING None)))
     = notifications (test_world (test_order PENDING None))"
  using dispatcher_persists_no_record [of 7 "test_order PENDING None"
      "test_world (test_order PENDING None)" PENDING True]
    dispatcher_persists_no_record [of 7 "test_order PAID None"
      "test_world (test_order PAID None)" PENDING True]
    dispatcher_persists_no_record [of 7 "test_order COMPLETED (Some 2)"
      "test_world (test_order COMPLETED (Some 2))" IN_PROGRESS True]
  by (simp add: sent_to_def worker_ids_def test_world_def test_order_def client_user_def
      worker_user_def other_worker_def other_client_def create_order_message_def
      create_message_def str_int_def digit_char_def)

subsection \<open>Notification records\<close>

lemma admin_mark_as_read_guard:
  "notifications w k = Some row \<Longrightarrow> nstatus row \<noteq> SENT \<Longrightarrow>
   notifications (admin_mark_as_read queryset w) k = Some row"
  by (simp add: admin_mark_as_read_def filter_update_def)

text \<open>
  C6. The claim does not hold of the model methods: \<^verbatim>\<open>mark_as_read\<close> on the stored test
  notification in status Failed succeeds and leaves the instance and the row in status
  Read. (The admin action of the same name filters on the status Sent first, see
  \<open>admin_mark_as_read_guard\<close>.)
\<close>

theorem mark_as_read_from_failed:
  "nstatus (test_notification FAILED) = FAILED
   \<and> mark_as_read 7 (test_notification FAILED) (notified_world (test_notification FAILED))
       = (Inr (), (test_notification FAILED)\<lparr>nstatus := READ, read_at := Some 7\<rparr>,
          notified_world ((test_notification FAILED)\<lparr>nstatus := READ, read_at := Some 7\<rparr>))"
  by (simp add: mark_as_read_def saved_def save_update_fields_def Let_def
      test_notification_def notified_world_def)

lemma mark_notification_read_true:
  "fst (mark_notification_read now self n w) \<Longrightarrow>
   \<exists>u row. c_user self = Some u \<and> notifications w n = Some row \<and> recipient_id row = uid u"
  by (auto simp: mark_notification_read_def split: option.splits if_splits)

lemma mark_notification_read_false:
  "c_user self = None \<or> notifications w n = None
     \<or> (\<exists>u row. c_user self = Some u \<and> notifications w n = Some row
                \<and> recipient_id row \<noteq> uid u)
   \<Longrightarrow> mark_notification_read now self n w = (False, w)"
  by (auto simp: mark_notification_read_def split: option.splits if_splits)

lemma mark_notification_read_recipient:
  "c_user self = Some u \<Longrightarrow> notifications w n = Some row \<Longrightarrow> recipient_id row = uid u
   \<Longrightarrow> nid row = Some n
   \<Longrightarrow> mark_notification_read now self n w =
      (True, w\<lparr>notifications :=
                 (notifications w)(n \<mapsto> row\<lparr>nstatus := READ, read_at := Some now\<rparr>)\<rparr>)"
  by (simp add: mark_notification_read_def mark_as_read_def saved_def save_update_fields_def
      Let_def)

text \<open>
  C9. \<^verbatim>\<open>_mark_notification_read\<close> returns \<^verbatim>\<open>True\<close> only when the notification exists and
  its recipient is the user of the connection. When the notification does not exist, or
  its recipient is another user, or the connection has no user, it returns \<^verbatim>\<open>False\<close> and
  the state (so the status and the read time of every notification) is unchanged. For the
  recipient it returns \<^verbatim>\<open>True\<close> and the row has status Read and the current time as read
  time.
\<close>

theorem mark_notification_read_recipient_only:
  "(fst (mark_notification_read now self n w) \<longrightarrow>
      (\<exists>u row. c_user self = Some u \<and> notifications w n = Some row
               \<and> recipient_id row = uid u))
   \<and> (c_user self = None \<or> notifications w n = None
        \<or> (\<exists>u row. c_user self = Some u \<and> notifications w n = Some row
                   \<and> recipient_id row \<noteq> uid u)
       \<longrightarrow> mark_notification_read now self n w = (False, w))
   \<and> (c_user self = Some u \<and> notifications w n = Some row \<and> recipient_id row = uid u
        \<and> nid row = Some n
       \<longrightarrow> mark_notification_read now self n w =
            (True, w\<lparr>notifications :=
                       (notifications w)(n \<mapsto> row\<lparr>nstatus := READ, read_at := Some now\<rparr>)\<rparr>))"
  using mark_notification_read_true [of now self n w]
    mark_notification_read_false [of self w n now]
    mark_notification_read_recipient [of self u w n row now]
  by blast

theorem mark_notification_read_recipient_only_witness:
  "c_user (test_consumer other_client) = Some other_client
   \<and> notifications (notified_world (test_notification SENT)) 1 = Some (test_notification SENT)
   \<and> recipient_id (test_notification SENT) \<noteq> uid other_client
   \<and> mark_notification_read 7 (test_consumer other_client) 1
        (notified_world (test_notification SENT))
      = (False, notified_world (test_notification SENT))
   \<and> mark_notification_read 7 (test_consumer other_client) 2
        (notified_world (test_notification SENT))
      = (False, notified_world (test_notification SENT))
   \<and> c_user (test_consumer client_user) = Some client_user
   \<and> recipient_id (test_notification SENT) = uid client_user
   \<and> nid (test_notification SENT) = Some 1
   \<and> mark_notification_read 7 (test_consumer client_user) 1
        (notified_world (test_notification SENT))
      = (True, notified_world ((test_notification SENT)\<lparr>nstatus := READ, read_at := Some 7\<rparr>))"
proof -
  let ?w = "notified_world (test_notification SENT)"
  have a: "c_user (test_consumer other_client) = Some other_client"
    and b: "notifications ?w 1 = Some (test_notification SENT)"
    and c: "recipient_id (test_notification SENT) \<noteq> uid other_client"
    and d: "c_user (test_consumer client_user) = Some client_user"
    and e: "recipient_id (test_notification SENT) = uid client_user"
    and f: "nid (test_notification SENT) = Some 1"
    and g: "notifications ?w 2 = None"
    and h: "?w\<lparr>notifications := (notifications ?w)
               (1 \<mapsto> (test_notification SENT)\<lparr>nstatus := READ, read_at := Some 7\<rparr>)\<rparr>
            = notified_world ((test_notification SENT)\<lparr>nstatus := READ, read_at := Some 7\<rparr>)"
    by (simp_all add: test_consumer_def notified_world_def test_notification_def
        other_client_def client_user_def)
  from mark_notification_read_recipient_only
         [of 7 "test_consumer other_client" 1 ?w other_client "test_notification SENT"] a b c
  have i: "mark_notification_read 7 (test_consumer other_client) 1 ?w = (False, ?w)"
    by blast
  from mark_notification_read_recipient_only
         [of 7 "test_consumer other_client" 2 ?w other_client "test_notification SENT"] g
  have j: "mark_notification_read 7 (test_consumer other_client) 2 ?w = (False, ?w)"
    by blast
  from mark_notification_read_recipient_only
         [of 7 "test_consumer client_user" 1 ?w client_user "test_notification SENT"] b d e f h
  have k: "mark_notification_read 7 (test_consumer client_user) 1 ?w
      = (True, notified_world ((test_notification SENT)\<lparr>nstatus := READ, read_at := Some 7\<rparr>))"
    by simp
  from a b c d e f i j k show ?thesis by blast
qed

subsection \<open>Subscriptions\<close>

lemma handle_subscribe_accepts:
  "names_user_group data g \<Longrightarrow>
    fst (handle_subscribe now self data w)
      = w\<lparr>groups := (groups w)(g := insert (channel_name self) (groups w g))\<rparr> \<and>
    map mtype (snd (handle_subscribe now self data w)) = [''subscribed'']"
  by (auto simp: names_user_group_def handle_subscribe_def startswith_def group_add_def)

lemma handle_subscribe_rejects:
  "\<forall>g. \<not> names_user_group data g \<Longrightarrow>
    fst (handle_subscribe now self data w) = w \<and>
    map mtype (snd (handle_subscribe now self data w)) = [''error'']"
  by (auto simp: names_user_group_def handle_subscribe_def send_error_message_def
      error_message_def group_add_def split: option.splits json.splits)

lemma handle_unsubscribe_accepts:
  "names_user_group data g \<Longrightarrow>
    fst (handle_unsubscribe now self data w)
      = w\<lparr>groups := (groups w)(g := groups w g - {channel_name self})\<rparr> \<and>
    map mtype (snd (handle_unsubscribe now self data w)) = [''unsubscribed'']"
  by (auto simp: names_user_group_def handle_unsubscribe_def startswith_def group_discard_def)

lemma handle_unsubscribe_rejects:
  "\<forall>g. \<not> names_user_group data g \<Longrightarrow>
    fst (handle_unsubscribe now self data w) = w \<and>
    map mtype (snd (handle_unsubscribe now self data w)) = [''error'']"
  by (auto simp: names_user_group_def handle_unsubscribe_def send_error_message_def
      error_message_def group_discard_def split: option.splits json.splits)

text \<open>
  A name that starts with \<^verbatim>\<open>user_\<close> and is not a valid group name (a space, or 100
  characters) is answered with a failure, and no group changes.
\<close>

lemma subscribe_invalid_name_fails:
  "handle_subscribe 7 (test_consumer client_user) [(''group_name'', JStr ''user_1 extra'')] w
     = (w, [error_message 7 (PStr ''Subscription failed'')])
   \<and> handle_unsubscribe 7 (test_consumer client_user)
         [(''group_name'', JStr ''user_1 extra'')] w
     = (w, [error_message 7 (PStr ''Unsubscription failed'')])
   \<and> handle_subscribe 7 (test_consumer client_user)
         [(''group_name'', JStr (''user_'' @ replicate 95 CHR ''a''))] w
     = (w, [error_message 7 (PStr ''Subscription failed'')])
   \<and> map mtype (snd (handle_subscribe 7 (test_consumer client_user)
         [(''group_name'', JStr (''user_'' @ replicate 94 CHR ''a''))] w)) = [''subscribed'']"
  by (simp add: handle_subscribe_def handle_unsubscribe_def startswith_def group_add_def
      group_discard_def valid_group_name_def group_name_char_def send_error_message_def
      eval_nat_numeral)

text \<open>
  The other places that add a channel to a group take the group from the verified user:
  \<^verbatim>\<open>connect\<close> changes no group but \<^verbatim>\<open>user_<id>\<close> of that user, and the two joins after
  it change no group but those computed from the user's id, gender and role.
\<close>

lemma connect_joins_own_group:
  assumes "connect now self (Some u) w = (self', w', r)" "groups w' g \<noteq> groups w g"
  shows "g = ''user_'' @ str_int (uid u)"
  using assms
  by (auto simp: connect_def group_add_def Let_def split: sum.splits if_splits)

lemma join_order_groups_own:
  assumes "c_user self = Some u" "groups (join_order_groups self w) g \<noteq> groups w g"
  shows "g = ''orders_client_'' @ str_int (uid u) \<and> role u = CLIENT
     \<or> (\<exists>x. gender u = Some x \<and> g = ''orders_worker_'' @ gender_value x \<and> role u = WORKER)
     \<or> g = ''orders_admin'' \<and> role u = ADMIN"
  using assms
  by (auto simp: join_order_groups_def joined_def group_add_def is_client_def is_worker_def
      is_admin_def split: sum.splits if_splits option.splits)

lemma join_notification_groups_own:
  assumes "c_user self = Some u" "groups (join_notification_groups self w) g \<noteq> groups w g"
  shows "g = ''notifications_'' @ str_int (uid u)
     \<or> g = ''notifications_admin'' \<and> role u = ADMIN"
  using assms
  by (auto simp: join_notification_groups_def joined_def group_add_def is_admin_def
      split: sum.splits if_splits)

text \<open>
  C7. The claim does not hold of the handler: the connection of user 1, authenticated by
  \<^verbatim>\<open>connect\<close>, sends a subscribe message for \<^verbatim>\<open>user_4\<close>, the personal group of user 4. The
  answer is \<^verbatim>\<open>subscribed\<close>, not an error, and the channel of user 1, which was no member
  of that group, is a member of it afterwards.
\<close>

theorem subscribe_joins_other_users_group:
  "fst (connect 6 (Consumer_init ''channel_1'') (Some client_user)
          (test_world (test_order PENDING None))) = test_consumer client_user
   \<and> c_user (test_consumer client_user) = Some client_user
   \<and> authenticated (test_consumer client_user)
   \<and> ''user_'' @ str_int (uid other_client) = ''user_4''
   \<and> uid other_client \<noteq> uid client_user
   \<and> ''channel_1'' \<notin> groups (test_world (test_order PENDING None)) ''user_4''
   \<and> snd (receive 7 (test_consumer client_user)
        [(''type'', JStr ''subscribe''), (''group_name'', JStr ''user_4'')]
        (test_world (test_order PENDING None)))
      = [\<lparr>mtype = ''subscribed'',
          payload = [(''group_name'', PStr ''user_4''),
                     (''message'', PStr ''Successfully subscribed to group'')],
          timestamp = 7\<rparr>]
   \<and> ''channel_1'' \<in> groups (fst (receive 7 (test_consumer client_user)
        [(''type'', JStr ''subscribe''), (''group_name'', JStr ''user_4'')]
        (test_world (test_order PENDING None)))) ''user_4''"
  by (simp add: test_consumer_def receive_def handle_message_def handle_subscribe_def
      startswith_def group_add_def valid_group_name_def group_name_char_def
      other_client_def client_user_def str_int_def digit_char_def connect_def
      Consumer_init_def Let_def test_world_def)

subsection \<open>Time stamps\<close>

lemma valid_target_not_pending: "is_valid_status_transition a b \<Longrightarrow> b \<noteq> PENDING"
  by (cases a; cases b) (simp_all add: is_valid_status_transition_def valid_transitions_def)

lemma save_and_return_keyed:
  assumes "pk self = Some k" "k \<noteq> 0"
  shows "save_and_return now self w v =
     (case orders w k of
        None \<Rightarrow> (Inl DoesNotExist, self, w)
      | Some old \<Rightarrow> (Inr v, written now old self,
                      w\<lparr>orders := (orders w)(k \<mapsto> written now old self)\<rparr>))"
  using assms
  by (simp add: save_and_return_def Order_save_def Model_save_def written_def Let_def
      created_at_same split: option.splits)

lemma written_keeps:
  assumes "pk self = pk order" "completed_at self = completed_at order"
    "status self \<noteq> PENDING" "status order \<noteq> PENDING \<longrightarrow> paid_at self = paid_at order"
  shows "keeps order (written now order self)"
  using assms by (auto simp: keeps_def written_def stamp_def)

lemma written_enters:
  "(status order \<noteq> PAID \<and> status self = PAID \<longrightarrow> paid_at (written now order self) \<noteq> None)
   \<and> (status order \<noteq> COMPLETED \<and> status self = COMPLETED \<longrightarrow> completed_at (written now order self) \<noteq> None)"
  by (auto simp: written_def stamp_def)

lemma effect_saved:
  assumes "pk self = Some k" "k \<noteq> 0" "orders w k = Some order" "pk order = Some k"
    "completed_at self = completed_at order"
    "status self \<noteq> PENDING" "status order \<noteq> PENDING \<longrightarrow> paid_at self = paid_at order"
    "orders w' = (orders w)(k \<mapsto> written now order self)"
  shows "effect k order w (True, written now order self, w')"
  using assms written_keeps[of self order now] written_enters[of order self now]
  by (simp add: effect_def)

lemma perform_effect:
  assumes "pk order = Some k" "k \<noteq> 0" "orders w k = Some order"
  shows "effect k order w (perform now opn order w)"
proof (cases opn)
  case (UpdateStatus new_status user kwargs)
  show ?thesis
  proof (cases "can_user_update_order user order \<and> (\<exists>new. new_status = Some new \<and> is_valid_status_transition (status order) new)")
    case False
    then show ?thesis using UpdateStatus
      by (auto simp: update_order_status_def effect_def Let_def split: option.splits)
  next
    case True
    then obtain new where new: "new_status = Some new" "is_valid_status_transition (status order) new"
      "can_user_update_order user order" by blast
    let ?self = "(set_known_fields kwargs order)\<lparr>status := new\<rparr>"
    have pk: "pk ?self = Some k" and ca: "completed_at ?self = completed_at order"
      and pa: "paid_at ?self = paid_at order"
      using assms by (simp_all add: set_known_fields_def Let_def split: option.splits)
    have st: "status ?self \<noteq> PENDING" using new(2) valid_target_not_pending by simp
    have "perform now opn order w =
       (True, written now order ?self,
        notify_order_updated now (written now order ?self) (status order)
          (w\<lparr>orders := (orders w)(k \<mapsto> written now order ?self)\<rparr>))"
      using UpdateStatus new assms pk
      by (simp add: update_order_status_def Let_def save_and_return_keyed[OF pk assms(2)])
    then show ?thesis
      using effect_saved[OF pk assms(2) assms(3) assms(1) ca st, of _ now] pa by simp
  qed
next
  case (AssignWorker worker user)
  let ?self = "order\<lparr>worker_id := Some (uid worker)\<rparr>"
  show ?thesis
  proof (cases "fst (perform now opn order w)")
    case False
    then show ?thesis using AssignWorker assms
      by (auto simp: assign_worker_to_order_def Order_assign_worker_def effect_def
          save_and_return_keyed split: if_splits prod.splits sum.splits bool.splits)
  next
    case True
    then have "perform now opn order w =
       (True, written now order ?self,
        notify_order_updated now (written now order ?self) (status (written now order ?self))
          (w\<lparr>orders := (orders w)(k \<mapsto> written now order ?self)\<rparr>)) \<and> status order = PAID"
      using AssignWorker assms
      by (auto simp: assign_worker_to_order_def Order_assign_worker_def can_be_assigned_def
          save_and_return_keyed split: if_splits prod.splits sum.splits bool.splits)
    then show ?thesis
      using effect_saved[of ?self k w order _ now] assms by simp
  qed
next
  case (StartWork user)
  let ?self = "order\<lparr>status := IN_PROGRESS\<rparr>"
  show ?thesis
  proof (cases "fst (perform now opn order w)")
    case False
    then show ?thesis using StartWork assms
      by (auto simp: start_order_work_def Order_start_work_def effect_def
          save_and_return_keyed split: if_splits prod.splits sum.splits bool.splits)
  next
    case True
    then have "perform now opn order w =
       (True, written now order ?self,
        notify_order_updated now (written now order ?self) (status (written now order ?self))
          (w\<lparr>orders := (orders w)(k \<mapsto> written now order ?self)\<rparr>))"
      using StartWork assms
      by (auto simp: start_order_work_def Order_start_work_def
          save_and_return_keyed split: if_splits prod.splits sum.splits bool.splits)
    then show ?thesis
      using effect_saved[of ?self k w order _ now] assms by simp
  qed
next
  case (Complete user)
  let ?self = "order\<lparr>status := COMPLETED\<rparr>"
  show ?thesis
  proof (cases "fst (perform now opn order w)")
    case False
    then show ?thesis using Complete assms
      by (auto simp: complete_order_def Order_complete_order_def effect_def
          save_and_return_keyed split: if_splits prod.splits sum.splits bool.splits)
  next
    case True
    then have "perform now opn order w =
       (True, written now order ?self,
        notify_order_updated now (written now order ?self) (status (written now order ?self))
          (w\<lparr>orders := (orders w)(k \<mapsto> written now order ?self)\<rparr>))"
      using Complete assms
      by (auto simp: complete_order_def Order_complete_order_def
          save_and_return_keyed split: if_splits prod.splits sum.splits bool.splits)
    then show ?thesis
      using effect_saved[of ?self k w order _ now] assms by simp
  qed
next
  case (Cancel user reason)
  let ?self = "order\<lparr>status := CANCELED\<rparr>"
  show ?thesis
  proof (cases "fst (perform now opn order w)")
    case False
    then show ?thesis using Cancel assms
      by (auto simp: cancel_order_def Order_cancel_order_def effect_def
          save_and_return_keyed split: if_splits prod.splits sum.splits bool.splits)
  next
    case True
    then have "perform now opn order w =
       (True, written now order ?self,
        notify_order_updated now (written now order ?self) (status (written now order ?self))
          (w\<lparr>orders := (orders w)(k \<mapsto> written now order ?self)\<rparr>))"
      using Cancel assms
      by (auto simp: cancel_order_def Order_cancel_order_def
          save_and_return_keyed split: if_splits prod.splits sum.splits bool.splits)
    then show ?thesis
      using effect_saved[of ?self k w order _ now] assms by simp
  qed
next
  case (ProcessPayment success)
  show ?thesis
  proof (cases "status order = PENDING")
    case False
    then show ?thesis using ProcessPayment
      by (simp add: process_payment_def can_be_paid_def effect_def)
  next
    case True
    let ?self = "if success then order\<lparr>status := PAID, paid_at := Some now\<rparr>
                       else order\<lparr>status := CANCELED\<rparr>"
    have "perform now opn order w =
       (True, written now order ?self,
        notify_payment_processed now (written now order ?self) success
          (w\<lparr>orders := (orders w)(k \<mapsto> written now order ?self)\<rparr>))"
      using ProcessPayment assms True
      by (simp add: process_payment_def can_be_paid_def save_and_return_keyed Let_def)
    then show ?thesis
      using effect_saved[of ?self k w order _ now] assms True by simp
  qed
next
  case (Refund user reason)
  let ?self = "order\<lparr>status := CANCELED\<rparr>"
  show ?thesis
  proof (cases "fst (perform now opn order w)")
    case False
    then show ?thesis using Refund assms
      by (auto simp: refund_payment_def effect_def
          save_and_return_keyed split: if_splits prod.splits sum.splits bool.splits)
  next
    case True
    then have "perform now opn order w =
       (True, written now order ?self,
        notify_payment_processed now (written now order ?self) False
          (w\<lparr>orders := (orders w)(k \<mapsto> written now order ?self)\<rparr>))"
      using Refund assms
      by (auto simp: refund_payment_def
          save_and_return_keyed split: if_splits prod.splits sum.splits bool.splits)
    then show ?thesis
      using effect_saved[of ?self k w order _ now] assms by simp
  qed
qed


lemma keeps_refl: "keeps order order"
  by (simp add: keeps_def)

lemma keeps_trans: "keeps a b \<Longrightarrow> keeps b c \<Longrightarrow> keeps a c"
  by (auto simp: keeps_def)

lemma request_rows:
  assumes "rows_keyed w"
  shows "rows_keyed (request now j opn w)
     \<and> (\<forall>k order. orders w k = Some order \<longrightarrow>
           (\<exists>row. orders (request now j opn w) k = Some row \<and> keeps order row))"
proof (cases "orders w j")
  case None
  then show ?thesis using assms by (simp add: request_def keeps_refl)
next
  case (Some oj)
  with assms have key: "pk oj = Some j" "j \<noteq> 0" by (auto simp: rows_keyed_def)
  obtain b order' w' where p: "perform now opn oj w = (b, order', w')"
    by (cases "perform now opn oj w") auto
  have e: "effect j oj w (b, order', w')"
    using perform_effect [OF key Some, of now opn] p by simp
  have r: "request now j opn w = w'" using Some p by (simp add: request_def)
  show ?thesis
  proof (cases b)
    case False
    with e have "orders w' = orders w" by (simp add: effect_def)
    with assms r show ?thesis by (simp add: rows_keyed_def keeps_refl)
  next
    case True
    with e have o: "orders w' = (orders w)(j \<mapsto> order')" and k: "keeps oj order'"
      by (simp_all add: effect_def)
    from k key have "pk order' = Some j" by (simp add: keeps_def)
    with assms o key have "rows_keyed w'" by (auto simp: rows_keyed_def)
    moreover have "\<forall>k order. orders w k = Some order \<longrightarrow>
           (\<exists>row. orders w' k = Some row \<and> keeps order row)"
      using o k Some by (auto simp: keeps_refl)
    ultimately show ?thesis using r by simp
  qed
qed

lemma run_rows:
  "rows_keyed w \<Longrightarrow> orders w k = Some order \<Longrightarrow>
   \<exists>row. orders (run reqs w) k = Some row \<and> keeps order row"
proof (induction reqs arbitrary: w order)
  case Nil
  then show ?case by (simp add: keeps_refl)
next
  case (Cons r rs)
  obtain now j opn where r: "r = (now, j, opn)" by (cases r) auto
  from request_rows [OF Cons.prems(1), of now j opn] Cons.prems(2)
  obtain row where row: "rows_keyed (request now j opn w)"
    "orders (request now j opn w) k = Some row" "keeps order row" by blast
  from Cons.IH [OF row(1) row(2)] obtain row' where
    "orders (run rs (request now j opn w)) k = Some row'" "keeps row row'" by blast
  with row(3) r show ?case by (auto intro: keeps_trans)
qed

lemma perform_rows:
  assumes "rows_keyed w" "orders w oid = Some order" "perform now opn order w = (True, order', w')"
  shows "rows_keyed w' \<and> orders w' oid = Some order'
     \<and> (status order \<noteq> PAID \<and> status order' = PAID \<longrightarrow> paid_at order' \<noteq> None)
     \<and> (status order \<noteq> COMPLETED \<and> status order' = COMPLETED \<longrightarrow> completed_at order' \<noteq> None)
     \<and> status order' \<noteq> PENDING"
proof -
  from assms have key: "pk order = Some oid" "oid \<noteq> 0" by (auto simp: rows_keyed_def)
  have e: "effect oid order w (True, order', w')"
    using perform_effect [OF key assms(2), of now opn] assms(3) by simp
  then have o: "orders w' = (orders w)(oid \<mapsto> order')" and k: "keeps order order'"
    by (simp_all add: effect_def)
  from k key have "pk order' = Some oid" by (simp add: keeps_def)
  with assms(1) o key have "rows_keyed w'" by (auto simp: rows_keyed_def)
  then show ?thesis using e o by (simp add: effect_def)
qed


lemma keeps_paid: "keeps a b \<Longrightarrow> status a \<noteq> PENDING \<Longrightarrow> paid_at a = Some t \<Longrightarrow> paid_at b = Some t"
  by (simp add: keeps_def)

lemma keeps_completed: "keeps a b \<Longrightarrow> completed_at a = Some t \<Longrightarrow> completed_at b = Some t"
  by (simp add: keeps_def)

text \<open>
  C5. Let the order table be keyed and \<open>order\<close> be its row of key \<open>oid\<close>. When a service call
  on that row succeeds and takes it into the status Paid (Completed), the returned instance
  has \<^verbatim>\<open>paid_at\<close> (\<^verbatim>\<open>completed_at\<close>) set, it is the stored row, and after any list of
  later requests, on this or any other order, the stored row still has that very
  \<^verbatim>\<open>paid_at\<close> (\<^verbatim>\<open>completed_at\<close>). More generally a \<^verbatim>\<open>paid_at\<close> of a row that has left Pending
  and a \<^verbatim>\<open>completed_at\<close> of any row are never changed by later requests.
\<close>

theorem timestamps_set_once:
  assumes "rows_keyed w" and "orders w oid = Some order"
  shows
   "(perform now opn order w = (True, order', w') \<and> status order \<noteq> PAID \<and> status order' = PAID \<longrightarrow>
       (\<exists>t. paid_at order' = Some t \<and> orders w' oid = Some order'
          \<and> (\<exists>row. orders (run reqs w') oid = Some row \<and> paid_at row = Some t)))
    \<and> (perform now opn order w = (True, order', w') \<and> status order \<noteq> COMPLETED
         \<and> status order' = COMPLETED \<longrightarrow>
       (\<exists>t. completed_at order' = Some t \<and> orders w' oid = Some order'
          \<and> (\<exists>row. orders (run reqs w') oid = Some row \<and> completed_at row = Some t)))
    \<and> (status order \<noteq> PENDING \<and> paid_at order = Some t \<longrightarrow>
         (\<exists>row. orders (run reqs w) oid = Some row \<and> paid_at row = Some t))
    \<and> (completed_at order = Some t \<longrightarrow>
         (\<exists>row. orders (run reqs w) oid = Some row \<and> completed_at row = Some t))"
proof (intro conjI impI)
  assume a: "perform now opn order w = (True, order', w') \<and> status order \<noteq> PAID \<and> status order' = PAID"
  from perform_rows [OF assms, of now opn order' w'] a
  have r: "rows_keyed w'" "orders w' oid = Some order'" "paid_at order' \<noteq> None" "status order' \<noteq> PENDING"
    by simp_all
  then obtain t where t: "paid_at order' = Some t" by auto
  from run_rows [OF r(1) r(2), of reqs] obtain row where
    "orders (run reqs w') oid = Some row" "keeps order' row" by blast
  with keeps_paid [OF _ r(4) t] t r(2)
  show "\<exists>t. paid_at order' = Some t \<and> orders w' oid = Some order'
          \<and> (\<exists>row. orders (run reqs w') oid = Some row \<and> paid_at row = Some t)"
    by blast
next
  assume a: "perform now opn order w = (True, order', w') \<and> status order \<noteq> COMPLETED
         \<and> status order' = COMPLETED"
  from perform_rows [OF assms, of now opn order' w'] a
  have r: "rows_keyed w'" "orders w' oid = Some order'" "completed_at order' \<noteq> None"
    by simp_all
  then obtain t where t: "completed_at order' = Some t" by auto
  from run_rows [OF r(1) r(2), of reqs] obtain row where
    "orders (run reqs w') oid = Some row" "keeps order' row" by blast
  with keeps_completed [OF _ t] t r(2)
  show "\<exists>t. completed_at order' = Some t \<and> orders w' oid = Some order'
          \<and> (\<exists>row. orders (run reqs w') oid = Some row \<and> completed_at row = Some t)"
    by blast
next
  assume a: "status order \<noteq> PENDING \<and> paid_at order = Some t"
  from run_rows [OF assms, of reqs] obtain row where
    "orders (run reqs w) oid = Some row" "keeps order row" by blast
  with keeps_paid a show "\<exists>row. orders (run reqs w) oid = Some row \<and> paid_at row = Some t"
    by blast
next
  assume a: "completed_at order = Some t"
  from run_rows [OF assms, of reqs] obtain row where
    "orders (run reqs w) oid = Some row" "keeps order row" by blast
  with keeps_completed a show "\<exists>row. orders (run reqs w) oid = Some row \<and> completed_at row = Some t"
    by blast
qed

lemma test_world_keyed: "pk order = Some 1 \<Longrightarrow> rows_keyed (test_world order)"
  by (simp add: rows_keyed_def test_world_def)

lemma payment_of_test_order:
  "fst (perform 7 (ProcessPayment True) (test_order PENDING None)
          (test_world (test_order PENDING None)))
   \<and> status (fst (snd (perform 7 (ProcessPayment True) (test_order PENDING None)
          (test_world (test_order PENDING None))))) = PAID"
  by (simp add: process_payment_def can_be_paid_def test_order_def test_world_def
      save_and_return_def Order_save_def Model_save_def stamp_def Let_def)

lemma completion_of_test_order:
  "fst (perform 7 (Complete worker_user) (test_order IN_PROGRESS (Some 2))
          (test_world (test_order IN_PROGRESS (Some 2))))
   \<and> status (fst (snd (perform 7 (Complete worker_user) (test_order IN_PROGRESS (Some 2))
          (test_world (test_order IN_PROGRESS (Some 2)))))) = COMPLETED"
  by (simp add: complete_order_def Order_complete_order_def can_be_completed_def
      can_user_manage_order_def is_admin_def is_worker_def worker_user_def client_user_def
      test_order_def test_world_def save_and_return_def Order_save_def Model_save_def
      stamp_def Let_def)

lemma requests_after_payment:
  "map_option (\<lambda>row. (status row, paid_at row, completed_at row, worker_id row))
     (orders (run later_requests
        (snd (snd (perform 7 (ProcessPayment True) (test_order PENDING None)
                     (test_world (test_order PENDING None)))))) 1)
   = Some (COMPLETED, Some 7, Some 11, Some 2)"
  by (simp add: later_requests_def request_def process_payment_def can_be_paid_def
      test_order_def test_world_def save_and_return_def Order_save_def Model_save_def
      stamp_def Let_def assign_worker_to_order_def Order_assign_worker_def
      can_be_assigned_def can_user_manage_order_def start_order_work_def
      Order_start_work_def can_be_started_def complete_order_def Order_complete_order_def
      can_be_completed_def refund_payment_def is_paid_def is_admin_def is_worker_def
      worker_user_def client_user_def)

theorem timestamps_set_once_witness:
  "rows_keyed (test_world (test_order PENDING None))
   \<and> orders (test_world (test_order PENDING None)) 1 = Some (test_order PENDING None)
   \<and> fst (perform 7 (ProcessPayment True) (test_order PENDING None)
            (test_world (test_order PENDING None)))
   \<and> status (test_order PENDING None) \<noteq> PAID
   \<and> status (fst (snd (perform 7 (ProcessPayment True) (test_order PENDING None)
            (test_world (test_order PENDING None))))) = PAID
   \<and> (\<exists>t. paid_at (fst (snd (perform 7 (ProcessPayment True) (test_order PENDING None)
                 (test_world (test_order PENDING None))))) = Some t
        \<and> (\<exists>row. orders (run later_requests
                 (snd (snd (perform 7 (ProcessPayment True) (test_order PENDING None)
                   (test_world (test_order PENDING None)))))) 1 = Some row
              \<and> paid_at row = Some t))
   \<and> map_option (\<lambda>row. (status row, paid_at row, completed_at row, worker_id row))
        (orders (run later_requests
           (snd (snd (perform 7 (ProcessPayment True) (test_order PENDING None)
                        (test_world (test_order PENDING None)))))) 1)
      = Some (COMPLETED, Some 7, Some 11, Some 2)
   \<and> rows_keyed (test_world (test_order IN_PROGRESS (Some 2)))
   \<and> fst (perform 7 (Complete worker_user) (test_order IN_PROGRESS (Some 2))
            (test_world (test_order IN_PROGRESS (Some 2))))
   \<and> status (test_order IN_PROGRESS (Some 2)) \<noteq> COMPLETED
   \<and> (\<exists>t. completed_at (fst (snd (perform 7 (Complete worker_user)
                 (test_order IN_PROGRESS (Some 2))
                 (test_world (test_order IN_PROGRESS (Some 2)))))) = Some t
        \<and> (\<exists>row. orders (run later_requests
                 (snd (snd (perform 7 (Complete worker_user) (test_order IN_PROGRESS (Some 2))
                   (test_world (test_order IN_PROGRESS (Some 2))))))) 1 = Some row
              \<and> completed_at row = Some t))
   \<and> rows_keyed (test_world paid_order)
   \<and> status paid_order \<noteq> PENDING \<and> paid_at paid_order = Some 3
   \<and> (\<exists>row. orders (run later_requests (test_world paid_order)) 1 = Some row
          \<and> paid_at row = Some 3)
   \<and> rows_keyed (test_world completed_order)
   \<and> completed_at completed_order = Some 5
   \<and> (\<exists>row. orders (run later_requests (test_world completed_order)) 1 = Some row
          \<and> completed_at row = Some 5)"
proof -
  let ?o = "test_order PENDING None" and ?i = "test_order IN_PROGRESS (Some 2)"
  let ?p = "perform 7 (ProcessPayment True) ?o (test_world ?o)"
  let ?c = "perform 7 (Complete worker_user) ?i (test_world ?i)"
  have k: "rows_keyed (test_world ?o)" "rows_keyed (test_world ?i)"
    "rows_keyed (test_world paid_order)" "rows_keyed (test_world completed_order)"
    by (simp_all add: test_world_keyed test_order_def paid_order_def completed_order_def)
  have r: "orders (test_world ?o) 1 = Some ?o" "orders (test_world ?i) 1 = Some ?i"
    "orders (test_world paid_order) 1 = Some paid_order"
    "orders (test_world completed_order) 1 = Some completed_order"
    by (simp_all add: test_world_def)
  have s: "status ?o \<noteq> PAID" "status ?i \<noteq> COMPLETED" "status paid_order \<noteq> PENDING"
    "paid_at paid_order = Some 3" "completed_at completed_order = Some 5"
    by (simp_all add: test_order_def paid_order_def completed_order_def)
  have p: "?p = (True, fst (snd ?p), snd (snd ?p))" "status (fst (snd ?p)) = PAID"
    using payment_of_test_order by (simp_all add: prod_eq_iff)
  have c: "?c = (True, fst (snd ?c), snd (snd ?c))" "status (fst (snd ?c)) = COMPLETED"
    using completion_of_test_order by (simp_all add: prod_eq_iff)
  from timestamps_set_once [OF k(1) r(1), of 7 "ProcessPayment True" "fst (snd ?p)"
      "snd (snd ?p)" later_requests] p s(1)
  have 1: "\<exists>t. paid_at (fst (snd ?p)) = Some t
        \<and> (\<exists>row. orders (run later_requests (snd (snd ?p))) 1 = Some row \<and> paid_at row = Some t)"
    by blast
  from timestamps_set_once [OF k(2) r(2), of 7 "Complete worker_user" "fst (snd ?c)"
      "snd (snd ?c)" later_requests] c s(2)
  have 2: "\<exists>t. completed_at (fst (snd ?c)) = Some t
        \<and> (\<exists>row. orders (run later_requests (snd (snd ?c))) 1 = Some row
              \<and> completed_at row = Some t)"
    by blast
  from timestamps_set_once [OF k(3) r(3), of _ _ _ _ later_requests 3] s(3,4)
  have 3: "\<exists>row. orders (run later_requests (test_world paid_order)) 1 = Some row
          \<and> paid_at row = Some 3"
    by blast
  from timestamps_set_once [OF k(4) r(4), of _ _ _ _ later_requests 5] s(5)
  have 4: "\<exists>row. orders (run later_requests (test_world completed_order)) 1 = Some row
          \<and> completed_at row = Some 5"
    by blast
  from k r(1) s p(2) 1 2 3 4 payment_of_test_order completion_of_test_order
    requests_after_payment
  show ?thesis by blast
qed

subsection \<open>Pending orders are unpaid\<close>

text \<open>
  A created order is Pending with no time stamp and no worker, and a row that is Pending
  after any list of requests is the row as it was before them: so the Pending rows that
  the services produce have \<^verbatim>\<open>paid_at\<close> unset.
\<close>

lemma create_order_pending:
  assumes "create_order now c name amount descr w = (Inr order, w')"
  shows "status order = PENDING \<and> paid_at order = None \<and> completed_at order = None
     \<and> worker_id order = None"
  using assms
  by (auto simp: create_order_def Order_save_def Model_save_def Let_def split: if_splits)

lemma pending_row_unchanged:
  assumes "rows_keyed w" "orders w k = Some order"
  shows "\<exists>row. orders (run reqs w) k = Some row \<and> (status row = PENDING \<longrightarrow> row = order)"
proof -
  from run_rows [OF assms, of reqs] obtain row where
    "orders (run reqs w) k = Some row" "keeps order row" by blast
  then show ?thesis by (auto simp: keeps_def)
qed

end
